theory Spec2Isabelle
  imports Complex_Main "HOL-Library.Word"
begin

section \<open>Errors\<close>

text \<open>
  Go errors as values. \<open>ErrDeleted\<close> is \<open>siadir.ErrDeleted\<close>; \<open>OsError\<close> stands for any
  error of the operating system or of a collaborator; \<open>AddContext\<close> is
  \<open>errors.AddContext\<close> and \<open>ComposeErr\<close> is \<open>errors.Compose\<close> of two errors that are both set.
\<close>

datatype error =
    ErrDeleted
  | OsError string
  | AddContext error string
  | ComposeErr error error

text \<open>\<open>errors.Contains\<close>: the error is, wraps or composes the given base error.\<close>

fun Contains :: "error \<Rightarrow> error \<Rightarrow> bool" where
  "Contains (AddContext e c) b = (AddContext e c = b \<or> Contains e b)"
| "Contains (ComposeErr e1 e2) b = (ComposeErr e1 e2 = b \<or> Contains e1 b \<or> Contains e2 b)"
| "Contains e b = (e = b)"

text \<open>\<open>errors.Compose\<close> on two optional errors (\<open>None\<close> is Go's \<open>nil\<close>).\<close>

fun Compose :: "error option \<Rightarrow> error option \<Rightarrow> error option" where
  "Compose None e = e"
| "Compose (Some e) None = Some e"
| "Compose (Some e1) (Some e2) = Some (ComposeErr e1 e2)"

section \<open>Values shared by the packages\<close>

text \<open>
  \<open>float64\<close>: the finite values are real numbers (the two zeros are one value, as Go's
  comparisons make them), next to the infinities and NaN. \<open>feq\<close>, \<open>flt\<close> and \<open>fge\<close> are Go's
  \<open>==\<close>, \<open><\<close> and \<open>>=\<close>, which are false on NaN; \<open>mathMin\<close> and \<open>mathMax\<close> are \<open>math.Min\<close> and
  \<open>math.Max\<close> with their special cases in the order of the library.
\<close>

datatype float64 = Finite real | PosInf | NegInf | NaN

fun flt :: "float64 \<Rightarrow> float64 \<Rightarrow> bool" where
  "flt NaN y = False"
| "flt x NaN = False"
| "flt (Finite a) (Finite b) = (a < b)"
| "flt x NegInf = False"
| "flt NegInf y = True"
| "flt PosInf y = False"
| "flt x PosInf = True"

definition feq :: "float64 \<Rightarrow> float64 \<Rightarrow> bool" where
  "feq x y = (x \<noteq> NaN \<and> y \<noteq> NaN \<and> x = y)"

definition fge :: "float64 \<Rightarrow> float64 \<Rightarrow> bool" where
  "fge x y = (flt y x \<or> feq x y)"

definition mathMin :: "float64 \<Rightarrow> float64 \<Rightarrow> float64" where
  "mathMin x y =
     (if x = NegInf \<or> y = NegInf then NegInf
      else if x = NaN \<or> y = NaN then NaN
      else if flt x y then x else y)"

definition mathMax :: "float64 \<Rightarrow> float64 \<Rightarrow> float64" where
  "mathMax x y =
     (if x = PosInf \<or> y = PosInf then PosInf
      else if x = NaN \<or> y = NaN then NaN
      else if flt y x then x else y)"

text \<open>\<open>math.MaxFloat64\<close> is \<open>2^1023 * (2 - 2^-52)\<close>.\<close>

definition MaxFloat64 :: float64 where
  "MaxFloat64 = Finite ((2 ^ 53 - 1) * 2 ^ 971)"

text \<open>
  \<open>time.Time\<close> as the signed distance in nanoseconds from the zero time: \<open>IsZero\<close> is
  \<open>= 0\<close>, \<open>Before\<close> is \<open><\<close>, \<open>After\<close> is \<open>>\<close>.
\<close>

type_synonym time = int

type_synonym uint64 = "64 word"

text \<open>\<open>os.FileMode\<close> is a \<open>uint32\<close>.\<close>

type_synonym FileMode = "32 word"

section \<open>Directory metadata store (package siadir)\<close>

text \<open>
  \<open>siadir.Metadata\<close>, with the fields that \<open>updateMetadata\<close> copies.
\<close>

record Metadata =
  AggregateHealth :: float64
  AggregateLastHealthCheckTime :: time
  AggregateMinRedundancy :: float64
  AggregateModTime :: time
  AggregateNumFiles :: uint64
  AggregateNumStuckChunks :: uint64
  AggregateNumSubDirs :: uint64
  AggregateRemoteHealth :: float64
  AggregateSize :: uint64
  AggregateStuckHealth :: float64
  Health :: float64
  LastHealthCheckTime :: time
  MinRedundancy :: float64
  ModTime :: time
  Mode :: FileMode
  NumFiles :: uint64
  NumStuckChunks :: uint64
  NumSubDirs :: uint64
  RemoteHealth :: float64
  Size :: uint64
  StuckHealth :: float64
  Version :: string

text \<open>The zero value \<open>Metadata{}\<close>.\<close>

definition zeroMetadata :: Metadata where
  "zeroMetadata =
     \<lparr>AggregateHealth = Finite 0, AggregateLastHealthCheckTime = 0,
      AggregateMinRedundancy = Finite 0, AggregateModTime = 0, AggregateNumFiles = 0,
      AggregateNumStuckChunks = 0, AggregateNumSubDirs = 0, AggregateRemoteHealth = Finite 0,
      AggregateSize = 0, AggregateStuckHealth = Finite 0, Health = Finite 0,
      LastHealthCheckTime = 0, MinRedundancy = Finite 0, ModTime = 0, Mode = 0, NumFiles = 0,
      NumStuckChunks = 0, NumSubDirs = 0, RemoteHealth = Finite 0, Size = 0,
      StuckHealth = Finite 0, Version = []\<rparr>"

definition DefaultDirHealth :: float64 where
  "DefaultDirHealth = Finite 0"

definition DefaultDirRedundancy :: float64 where
  "DefaultDirRedundancy = Finite (- 1)"

text \<open>
  \<open>SiaDir\<close>: the metadata, the tombstone and the path (the mutex, the dependencies and
  the log handle are left to the callers and to \<open>deps\<close> below).
\<close>

record SiaDir =
  metadata :: Metadata
  deleted :: bool
  path :: string

text \<open>
  How a call ends: it returns its error value (\<open>None\<close> is nil), or it panics.
\<close>

datatype outcome = Return "error option" | Panic error

text \<open>
  The collaborators of the package, which are not part of it: the write-ahead log, the
  function \<open>applyUpdate\<close> that writes one update to the disk \<open>'d\<close>, the operating system, and
  the two functions of the package that build updates. Each is a field; a disk operation
  returns the disk it leaves and its error.
\<close>

record ('u, 'd) deps =
  newTransaction :: "'u list \<Rightarrow> error option"
  signalSetupComplete :: "error option"
  signalUpdatesApplied :: "error option"
  applyUpdate :: "'u \<Rightarrow> 'd \<Rightarrow> 'd \<times> error option"
  osRename :: "string \<Rightarrow> string \<Rightarrow> 'd \<Rightarrow> 'd \<times> error option"
  statNotExist :: "string \<Rightarrow> 'd \<Rightarrow> bool"
  mkdirAllParent :: "string \<Rightarrow> 'd \<Rightarrow> 'd \<times> error option"
  createDeleteUpdate :: "SiaDir \<Rightarrow> 'u"
  saveMetadataUpdate :: "SiaDir \<Rightarrow> error + 'u"

text \<open>\<open>ApplyUpdates\<close>: the updates in order, stopping at the first that fails.\<close>

fun ApplyUpdates :: "('u, 'd) deps \<Rightarrow> 'u list \<Rightarrow> 'd \<Rightarrow> 'd \<times> error option" where
  "ApplyUpdates dp [] d = (d, None)"
| "ApplyUpdates dp (u # us) d =
     (case applyUpdate dp u d of
        (d', Some err) \<Rightarrow> (d', Some (AddContext err ''failed to apply update''))
      | (d', None) \<Rightarrow> ApplyUpdates dp us d')"

text \<open>
  \<open>CreateAndApplyTransaction\<close>. The deferred function installed after the setup is
  \<open>panicIfErr\<close>, applied to the named result \<open>err\<close> that the return statements set.
\<close>

definition panicIfErr :: "error option \<Rightarrow> outcome" where
  "panicIfErr err = (case err of Some e \<Rightarrow> Panic e | None \<Rightarrow> Return None)"

definition CreateAndApplyTransaction ::
  "('u, 'd) deps \<Rightarrow> 'u list \<Rightarrow> 'd \<Rightarrow> 'd \<times> outcome" where
  "CreateAndApplyTransaction dp updates d =
     (case newTransaction dp updates of
        Some err \<Rightarrow> (d, Return (Some (AddContext err ''failed to create wal txn'')))
      | None \<Rightarrow>
     (case signalSetupComplete dp of
        Some err \<Rightarrow> (d, Return (Some (AddContext err ''failed to signal setup completion'')))
      | None \<Rightarrow>
     (case ApplyUpdates dp updates d of
        (d', Some err) \<Rightarrow> (d', panicIfErr (Some (AddContext err ''failed to apply updates'')))
      | (d', None) \<Rightarrow>
     (case signalUpdatesApplied dp of
        Some err \<Rightarrow>
          (d', panicIfErr (Some (AddContext err ''failed to signal that updates are applied'')))
      | None \<Rightarrow> (d', panicIfErr None)))))"

text \<open>
  The method \<open>sd.createAndApplyTransaction\<close> hands the updates to
  \<open>CreateAndApplyTransaction\<close> with the directory's log.
\<close>

definition createAndApplyTransaction ::
  "('u, 'd) deps \<Rightarrow> 'u list \<Rightarrow> 'd \<Rightarrow> 'd \<times> outcome" where
  "createAndApplyTransaction dp updates d = CreateAndApplyTransaction dp updates d"

text \<open>\<open>rename\<close> (unexported): \<open>os.Rename\<close>, then the path field.\<close>

definition rename :: "('u, 'd) deps \<Rightarrow> SiaDir \<Rightarrow> string \<Rightarrow> 'd \<Rightarrow> SiaDir \<times> 'd \<times> outcome" where
  "rename dp sd targetPath d =
     (case osRename dp (path sd) targetPath d of
        (d', Some err) \<Rightarrow> (sd, d', Return (Some err))
      | (d', None) \<Rightarrow> (sd\<lparr>path := targetPath\<rparr>, d', Return None))"

text \<open>
  \<open>Delete\<close>. The tombstone is set after the transaction, whatever its error; a panic of
  the transaction leaves the method before that line.
\<close>

definition Delete :: "('u, 'd) deps \<Rightarrow> SiaDir \<Rightarrow> 'd \<Rightarrow> SiaDir \<times> 'd \<times> outcome" where
  "Delete dp sd d =
     (if deleted sd then (sd, d, Return None)
      else case createAndApplyTransaction dp [createDeleteUpdate dp sd] d of
        (d', Panic e) \<Rightarrow> (sd, d', Panic e)
      | (d', Return err) \<Rightarrow> (sd\<lparr>deleted := True\<rparr>, d', Return err))"

definition saveDir :: "('u, 'd) deps \<Rightarrow> SiaDir \<Rightarrow> 'd \<Rightarrow> SiaDir \<times> 'd \<times> outcome" where
  "saveDir dp sd d =
     (if deleted sd then (sd, d, Return (Some (AddContext ErrDeleted ''cannot save a deleted SiaDir'')))
      else case saveMetadataUpdate dp sd of
        Inl err \<Rightarrow> (sd, d, Return (Some err))
      | Inr metadataUpdate \<Rightarrow>
          (case createAndApplyTransaction dp [metadataUpdate] d of (d', out) \<Rightarrow> (sd, d', out)))"

definition Rename :: "('u, 'd) deps \<Rightarrow> SiaDir \<Rightarrow> string \<Rightarrow> 'd \<Rightarrow> SiaDir \<times> 'd \<times> outcome" where
  "Rename dp sd targetPath d =
     (if deleted sd
      then (sd, d, Return (Some (AddContext ErrDeleted ''cannot rename a deleted SiaDir'')))
      else rename dp sd targetPath d)"

definition SetPath :: "SiaDir \<Rightarrow> string \<Rightarrow> SiaDir \<times> error option" where
  "SetPath sd targetPath =
     (if deleted sd
      then (sd, Some (AddContext ErrDeleted ''cannot set the path of a deleted SiaDir''))
      else (sd\<lparr>path := targetPath\<rparr>, None))"

text \<open>
  The build: \<open>testing\<close> is \<open>build.Release == "testing"\<close> and \<open>DEBUG\<close> is \<open>build.DEBUG\<close>, under
  which \<open>build.Critical\<close> panics after printing; otherwise it only prints.
\<close>

record build =
  testing :: bool
  DEBUG :: bool

text \<open>
  \<open>reflect.DeepEqual\<close> on two metadata values: field by field, the floats with \<open>==\<close>.
\<close>

definition DeepEqual :: "Metadata \<Rightarrow> Metadata \<Rightarrow> bool" where
  "DeepEqual a b =
     (feq (AggregateHealth a) (AggregateHealth b) \<and>
      AggregateLastHealthCheckTime a = AggregateLastHealthCheckTime b \<and>
      feq (AggregateMinRedundancy a) (AggregateMinRedundancy b) \<and>
      AggregateModTime a = AggregateModTime b \<and>
      AggregateNumFiles a = AggregateNumFiles b \<and>
      AggregateNumStuckChunks a = AggregateNumStuckChunks b \<and>
      AggregateNumSubDirs a = AggregateNumSubDirs b \<and>
      feq (AggregateRemoteHealth a) (AggregateRemoteHealth b) \<and>
      AggregateSize a = AggregateSize b \<and>
      feq (AggregateStuckHealth a) (AggregateStuckHealth b) \<and>
      feq (Health a) (Health b) \<and>
      LastHealthCheckTime a = LastHealthCheckTime b \<and>
      feq (MinRedundancy a) (MinRedundancy b) \<and>
      ModTime a = ModTime b \<and>
      Mode a = Mode b \<and>
      NumFiles a = NumFiles b \<and>
      NumStuckChunks a = NumStuckChunks b \<and>
      NumSubDirs a = NumSubDirs b \<and>
      feq (RemoteHealth a) (RemoteHealth b) \<and>
      Size a = Size b \<and>
      feq (StuckHealth a) (StuckHealth b) \<and>
      Version a = Version b)"

text \<open>
  \<open>updateMetadata\<close>. The assignments are kept one by one, in \<open>copyMetadata\<close>. Then come
  the check of testing builds, the check that the directory is on disk (whose repair
  creates the parent of the path), and \<open>saveDir\<close>.
\<close>

definition copyMetadata :: "Metadata \<Rightarrow> Metadata \<Rightarrow> Metadata" where
  "copyMetadata m md =
     m\<lparr>AggregateHealth := AggregateHealth md,
       AggregateLastHealthCheckTime := AggregateLastHealthCheckTime md,
       AggregateMinRedundancy := AggregateMinRedundancy md,
       AggregateModTime := AggregateModTime md,
       AggregateNumFiles := AggregateNumFiles md,
       AggregateNumStuckChunks := AggregateNumStuckChunks md,
       AggregateNumSubDirs := AggregateNumSubDirs md,
       AggregateRemoteHealth := AggregateRemoteHealth md,
       AggregateSize := AggregateSize md,
       AggregateStuckHealth := AggregateStuckHealth md,
       Health := Health md,
       LastHealthCheckTime := LastHealthCheckTime md,
       MinRedundancy := MinRedundancy md,
       ModTime := ModTime md,
       Mode := Mode md,
       NumFiles := NumFiles md,
       NumStuckChunks := NumStuckChunks md,
       NumSubDirs := NumSubDirs md,
       RemoteHealth := RemoteHealth md,
       Size := Size md,
       StuckHealth := StuckHealth md,
       Version := Version md\<rparr>"

definition updateMetadata ::
  "('u, 'd) deps \<Rightarrow> build \<Rightarrow> SiaDir \<Rightarrow> Metadata \<Rightarrow> 'd \<Rightarrow> SiaDir \<times> 'd \<times> outcome" where
  "updateMetadata dp bld sd md d =
     (if deleted sd
      then (sd, d, Return (Some (AddContext ErrDeleted
                                   ''cannot update the metadata for a deleted directory'')))
      else
        let sd' = sd\<lparr>metadata := copyMetadata (metadata sd) md\<rparr> in
        if testing bld \<and> \<not> DeepEqual (metadata sd') md \<and> DEBUG bld
        then (sd', d, Panic (OsError ''Input metadata not equal to set metadata''))
        else if statNotExist dp (path sd') d then
          (if DEBUG bld
           then (sd', d,
                 Panic (OsError ''UpdateMetadata called on a SiaDir that does not exist on disk''))
           else case mkdirAllParent dp (path sd') d of
             (d', Some err) \<Rightarrow>
               (sd', d', Return (Some (AddContext err
                                        ''unable to create missing siadir directory on disk'')))
           | (d', None) \<Rightarrow> saveDir dp sd' d')
        else saveDir dp sd' d)"

definition UpdateBubbledMetadata ::
  "('u, 'd) deps \<Rightarrow> build \<Rightarrow> SiaDir \<Rightarrow> Metadata \<Rightarrow> 'd \<Rightarrow> SiaDir \<times> 'd \<times> outcome" where
  "UpdateBubbledMetadata dp bld sd md d =
     updateMetadata dp bld sd
       (md\<lparr>Mode := Mode (metadata sd), Version := Version (metadata sd)\<rparr>) d"

definition UpdateLastHealthCheckTime ::
  "('u, 'd) deps \<Rightarrow> build \<Rightarrow> SiaDir \<Rightarrow> time \<Rightarrow> time \<Rightarrow> 'd \<Rightarrow> SiaDir \<times> 'd \<times> outcome" where
  "UpdateLastHealthCheckTime dp bld sd aggregateLastHealthCheckTime lastHealthCheckTime d =
     updateMetadata dp bld sd
       ((metadata sd)\<lparr>AggregateLastHealthCheckTime := aggregateLastHealthCheckTime,
                      LastHealthCheckTime := lastHealthCheckTime\<rparr>) d"

definition UpdateMetadata ::
  "('u, 'd) deps \<Rightarrow> build \<Rightarrow> SiaDir \<Rightarrow> Metadata \<Rightarrow> 'd \<Rightarrow> SiaDir \<times> 'd \<times> outcome" where
  "UpdateMetadata dp bld sd md d = updateMetadata dp bld sd md d"

text \<open>
  \<open>callLoadSiaDirMetadata\<close>. Opening, reading and closing the file and decoding the JSON
  are the environment: \<open>openFile\<close> gives the open error if any, \<open>readAll\<close> the bytes or the
  read error, \<open>closeFile\<close> the error of the deferred \<open>Close\<close>, and \<open>unmarshal\<close> what
  \<open>json.Unmarshal\<close> leaves in the zero-initialised result together with its error.
  \<open>defaultDirPerm\<close> is \<open>modules.DefaultDirPerm\<close>. The function does not write: the disk is
  returned as it was given.
\<close>

record 'd loadEnv =
  openFile :: "string \<Rightarrow> 'd \<Rightarrow> error option"
  readAll :: "string \<Rightarrow> 'd \<Rightarrow> error + 8 word list"
  closeFile :: "error option"
  unmarshal :: "8 word list \<Rightarrow> Metadata \<times> error option"
  defaultDirPerm :: FileMode

definition callLoadSiaDirMetadata ::
  "'d loadEnv \<Rightarrow> string \<Rightarrow> 'd \<Rightarrow> 'd \<times> Metadata \<times> error option" where
  "callLoadSiaDirMetadata env p d =
     (case openFile env p d of
        Some err \<Rightarrow> (d, zeroMetadata, Some err)
      | None \<Rightarrow>
     (case readAll env p d of
        Inl err \<Rightarrow> (d, zeroMetadata, Compose (Some err) (closeFile env))
      | Inr bytes \<Rightarrow>
          (case unmarshal env bytes of
             (md, err) \<Rightarrow>
               (let md' = (if Version md = [] \<and> Mode md = 0
                           then md\<lparr>Mode := defaultDirPerm env, Version := ''1.0''\<rparr>
                           else md)
                in (d, md', Compose err (closeFile env))))))"

section \<open>Snapshot engine (package siafile)\<close>

text \<open>
  A piece as the file stores it (an offset into the host key table and a Merkle root), a
  chunk of the file with its index and its piece sets, and the exported \<open>Piece\<close> and
  \<open>Chunk\<close> of a snapshot, where the host is the key itself. A hash is its bytes.
\<close>

type_synonym hash = "8 word list"

record piece =
  HostTableOffset :: "32 word"
  MerkleRoot :: hash

record chunk =
  Index :: nat
  Pieces :: "piece list list"

type_synonym 'k Piece = "'k \<times> hash"

type_synonym 'k Chunk = "'k Piece list list"

text \<open>How a call that returns a value ends: the value, an error, or a run-time panic.\<close>

datatype 'a result = Value 'a | Failure error | RuntimePanic string

text \<open>
  The parts of a \<open>SiaFile\<close> that a snapshot reads. \<open>chunkOf\<close> is \<open>sf.chunk\<close>, which reads a
  chunk from disk; \<open>hostKey\<close> resolves a table offset to the host's public key;
  \<open>isIncludedPartialChunk\<close> gives the index in the combined file of a partial chunk that
  is included there, \<open>partialsPieces\<close> reads its pieces from that file, and
  \<open>isIncompletePartialChunk\<close> marks a partial chunk not yet included; \<open>NumPieces\<close> is the
  erasure coder's number of pieces.
\<close>

record 'k SiaFile =
  numChunks :: nat
  staticChunkSize :: uint64
  chunkOf :: "nat \<Rightarrow> error + chunk"
  hostKey :: "32 word \<Rightarrow> 'k"
  isIncludedPartialChunk :: "nat \<Rightarrow> nat option"
  partialsPieces :: "nat \<Rightarrow> error + 'k Chunk"
  isIncompletePartialChunk :: "nat \<Rightarrow> bool"
  NumPieces :: nat

text \<open>
  \<open>readlockChunks\<close>: the loop over the chunk indices, appending to the chunks copied so
  far; \<open>min\<close> and \<open>max\<close> are Go \<open>int\<close>s.
\<close>

fun readlockLoop :: "'k SiaFile \<Rightarrow> int \<Rightarrow> int \<Rightarrow> nat list \<Rightarrow> chunk list \<Rightarrow> error + chunk list" where
  "readlockLoop sf mn mx [] chunks = Inr chunks"
| "readlockLoop sf mn mx (chunkIndex # rest) chunks =
     (if int chunkIndex < mn \<or> int chunkIndex > mx
      then readlockLoop sf mn mx rest (chunks @ [\<lparr>Index = chunkIndex, Pieces = []\<rparr>])
      else case chunkOf sf chunkIndex of
             Inl err \<Rightarrow> Inl err
           | Inr c \<Rightarrow> readlockLoop sf mn mx rest (chunks @ [c]))"

definition readlockChunks :: "'k SiaFile \<Rightarrow> int \<Rightarrow> int \<Rightarrow> error + chunk list" where
  "readlockChunks sf mn mx = readlockLoop sf mn mx [0..<numChunks sf] []"

text \<open>
  The chunks of \<open>readlockSnapshot\<close>: a partial chunk included in the combined file takes
  its pieces from there, one not yet included gets \<open>NumPieces\<close> empty piece sets, and any
  other chunk has each of its pieces exported with the host's key.
\<close>

definition exportChunk :: "'k SiaFile \<Rightarrow> chunk \<Rightarrow> error + 'k Chunk" where
  "exportChunk sf c =
     (case isIncludedPartialChunk sf (Index c) of
        Some cciIndex \<Rightarrow> partialsPieces sf cciIndex
      | None \<Rightarrow>
          if isIncompletePartialChunk sf (Index c) then Inr (replicate (NumPieces sf) [])
          else Inr (map (map (\<lambda>p. (hostKey sf (HostTableOffset p), MerkleRoot p))) (Pieces c)))"

fun exportChunks :: "'k SiaFile \<Rightarrow> chunk list \<Rightarrow> 'k Chunk list \<Rightarrow> error + 'k Chunk list" where
  "exportChunks sf [] exportedChunks = Inr exportedChunks"
| "exportChunks sf (c # chunks) exportedChunks =
     (case exportChunk sf c of
        Inl err \<Rightarrow> Inl err
      | Inr e \<Rightarrow> exportChunks sf chunks (exportedChunks @ [e]))"

text \<open>
  A snapshot, reduced to its chunks (the other fields are copies of the file's metadata).
\<close>

definition readlockSnapshot :: "'k SiaFile \<Rightarrow> chunk list \<Rightarrow> 'k Chunk list result" where
  "readlockSnapshot sf chunks =
     (case exportChunks sf chunks [] of Inl err \<Rightarrow> Failure err | Inr cs \<Rightarrow> Value cs)"

text \<open>
  \<open>SnapshotRange\<close>. The offsets are \<open>uint64\<close>, so \<open>offset + length\<close> wraps; a chunk size of
  zero is a division by zero; \<open>int(...)\<close> reads the 64 bits as a signed number.
  \<open>rangeChunks\<close> gives the two bounds handed to \<open>readlockChunks\<close>.
\<close>

definition rangeChunks :: "uint64 \<Rightarrow> uint64 \<Rightarrow> uint64 \<Rightarrow> int \<times> int" where
  "rangeChunks chunkSize offset len =
     (let minChunk = sint (offset div chunkSize);
          maxChunk = sint ((offset + len) div chunkSize);
          maxChunkOffset = (offset + len) mod chunkSize
      in (minChunk, if maxChunk > 0 \<and> maxChunkOffset = 0 then maxChunk - 1 else maxChunk))"

definition SnapshotRange :: "'k SiaFile \<Rightarrow> uint64 \<Rightarrow> uint64 \<Rightarrow> 'k Chunk list result" where
  "SnapshotRange sf offset len =
     (if staticChunkSize sf = 0 then RuntimePanic ''integer divide by zero''
      else case rangeChunks (staticChunkSize sf) offset len of
        (minChunk, maxChunk) \<Rightarrow>
          (case readlockChunks sf minChunk maxChunk of
             Inl err \<Rightarrow> Failure err
           | Inr chunks \<Rightarrow> readlockSnapshot sf chunks))"

text \<open>\<open>Snapshot\<close>: every chunk, \<open>readlockChunks(0, math.MaxInt32)\<close>.\<close>

definition Snapshot :: "'k SiaFile \<Rightarrow> 'k Chunk list result" where
  "Snapshot sf =
     (case readlockChunks sf 0 2147483647 of
        Inl err \<Rightarrow> Failure err
      | Inr chunks \<Rightarrow> readlockSnapshot sf chunks)"

text \<open>
  For the statements about ranges. \<open>stub i\<close> is the chunk that \<open>readlockChunks\<close> appends
  for an index outside its bounds, \<open>inRange\<close> says that an index lies within the bounds that
  \<open>SnapshotRange\<close> computes, and \<open>pickChunk\<close> is the chunk that \<open>readlockChunks\<close> appends for
  an index. \<open>materialized cs off len i\<close> describes the same indices in natural numbers:
  for a positive length the chunks whose bytes \<open>[i * cs, (i + 1) * cs)\<close> meet
  \<open>[off, off + len)\<close>, and for length zero the chunk that holds \<open>off\<close> unless \<open>off\<close> is a
  positive multiple of the chunk size. \<open>exportPieces\<close> is the export of a chunk that is not
  a partial chunk.
\<close>

definition stub :: "nat \<Rightarrow> chunk" where
  "stub i = \<lparr>Index = i, Pieces = []\<rparr>"

definition inRange :: "uint64 \<Rightarrow> uint64 \<Rightarrow> uint64 \<Rightarrow> nat \<Rightarrow> bool" where
  "inRange chunkSize offset len i =
     (fst (rangeChunks chunkSize offset len) \<le> int i \<and>
      int i \<le> snd (rangeChunks chunkSize offset len))"

definition pickChunk :: "'k SiaFile \<Rightarrow> int \<Rightarrow> int \<Rightarrow> nat \<Rightarrow> chunk" where
  "pickChunk sf mn mx i =
     (if int i < mn \<or> int i > mx then stub i
      else case chunkOf sf i of Inr c \<Rightarrow> c | Inl e \<Rightarrow> stub i)"

definition materialized :: "nat \<Rightarrow> nat \<Rightarrow> nat \<Rightarrow> nat \<Rightarrow> bool" where
  "materialized cs off len i =
     (if len = 0 then i = off div cs \<and> \<not> (off mod cs = 0 \<and> 0 < off div cs)
      else i * cs < off + len \<and> off < (i + 1) * cs)"

definition exportPieces :: "'k SiaFile \<Rightarrow> chunk \<Rightarrow> 'k Chunk" where
  "exportPieces sf c = map (map (\<lambda>p. (hostKey sf (HostTableOffset p), MerkleRoot p))) (Pieces c)"

section \<open>Directory metadata calculation (modules/renter/metadata.go)\<close>

text \<open>
  \<open>siafile.BubbledMetadata\<close>, as \<open>managedCalculateFileMetadata\<close> fills it. The fields that
  share a name with a field of \<open>siadir.Metadata\<close> carry the suffix \<open>_bm\<close>. A sia path is the
  string it prints as.
\<close>

record BubbledMetadata =
  Health_bm :: float64
  LastHealthCheckTime_bm :: time
  ModTime_bm :: time
  NumStuckChunks_bm :: uint64
  OnDisk :: bool
  Redundancy :: float64
  Size_bm :: uint64
  StuckHealth_bm :: float64
  UID :: string

type_synonym SiaPath = string

type_synonym bubbledSiaFileMetadata = "SiaPath \<times> BubbledMetadata"

type_synonym bubbledSiaDirMetadata = "SiaPath \<times> Metadata"

text \<open>What a walk does to the rest of the renter, in the order it does it.\<close>

datatype effect =
    RegisterAlert string
  | UnregisterAlert string
  | LaunchBubble SiaPath
  | FollowUpWalk SiaPath
  | ParentBubble SiaPath
  | RepairNeeded
  | StuckChunkFound

text \<open>
  The clock: \<open>clk n\<close> is what the \<open>n\<close>-th call of \<open>time.Now()\<close> of a walk returns, and the
  walk carries the number of calls made so far.
\<close>

type_synonym clock = "nat \<Rightarrow> time"

text \<open>
  The values recorded by one iteration of the aggregation loop to be compared after its
  two branches: health, remote health, stuck health, minimum redundancy, last health check
  time, modification time. They start as zero values.
\<close>

record aggregates =
  aggregateHealth :: float64
  aggregateRemoteHealth :: float64
  aggregateStuckHealth :: float64
  aggregateMinRedundancy :: float64
  aggregateLastHealthCheckTime :: time
  aggregateModTime :: time

text \<open>
  The end of an iteration, from "Track the max value of aggregate health values" on. A
  guarded assignment \<open>if c { md.F = v }\<close> is written as the assignment of
  \<open>if c then v else F md\<close>.
\<close>

definition track :: "Metadata \<Rightarrow> aggregates \<Rightarrow> Metadata" where
  "track md ag =
     md\<lparr>AggregateHealth := mathMax (AggregateHealth md) (aggregateHealth ag),
        AggregateRemoteHealth := mathMax (AggregateRemoteHealth md) (aggregateRemoteHealth ag),
        AggregateStuckHealth := mathMax (AggregateStuckHealth md) (aggregateStuckHealth ag),
        AggregateMinRedundancy :=
          (if \<not> feq (aggregateMinRedundancy ag) (Finite (- 1))
           then mathMin (AggregateMinRedundancy md) (aggregateMinRedundancy ag)
           else AggregateMinRedundancy md),
        AggregateLastHealthCheckTime :=
          (if aggregateLastHealthCheckTime ag < AggregateLastHealthCheckTime md
           then aggregateLastHealthCheckTime ag else AggregateLastHealthCheckTime md),
        AggregateModTime :=
          (if aggregateModTime ag > AggregateModTime md
           then aggregateModTime ag else AggregateModTime md)\<rparr>"

text \<open>
  The branch of an iteration for a file: the alert, the time of a file never checked, the
  recorded values, the aggregate counters and the directory's own fields. \<open>thr\<close> is
  \<open>AlertSiafileLowRedundancyThreshold\<close>.
\<close>

definition fileAlert :: "float64 \<Rightarrow> BubbledMetadata \<Rightarrow> effect" where
  "fileAlert thr fileMetadata =
     (let maxHealth = mathMax (Health_bm fileMetadata) (StuckHealth_bm fileMetadata) in
      if fge maxHealth thr then RegisterAlert (UID fileMetadata)
      else UnregisterAlert (UID fileMetadata))"

definition fileAggregates :: "BubbledMetadata \<Rightarrow> aggregates" where
  "fileAggregates fileMetadata =
     \<lparr>aggregateHealth = Health_bm fileMetadata,
      aggregateRemoteHealth =
        (if \<not> OnDisk fileMetadata then Health_bm fileMetadata else Finite 0),
      aggregateStuckHealth = StuckHealth_bm fileMetadata,
      aggregateMinRedundancy = Redundancy fileMetadata,
      aggregateLastHealthCheckTime = LastHealthCheckTime_bm fileMetadata,
      aggregateModTime = ModTime_bm fileMetadata\<rparr>"

definition fileFields :: "Metadata \<Rightarrow> BubbledMetadata \<Rightarrow> Metadata" where
  "fileFields md fileMetadata =
     md\<lparr>AggregateNumFiles := AggregateNumFiles md + 1,
        AggregateNumStuckChunks := AggregateNumStuckChunks md + NumStuckChunks_bm fileMetadata,
        AggregateSize := AggregateSize md + Size_bm fileMetadata,
        Health := mathMax (Health md) (Health_bm fileMetadata),
        LastHealthCheckTime :=
          (if LastHealthCheckTime_bm fileMetadata < LastHealthCheckTime md
           then LastHealthCheckTime_bm fileMetadata else LastHealthCheckTime md),
        MinRedundancy :=
          (if \<not> feq (Redundancy fileMetadata) (Finite (- 1))
           then mathMin (MinRedundancy md) (Redundancy fileMetadata) else MinRedundancy md),
        ModTime :=
          (if ModTime_bm fileMetadata > ModTime md then ModTime_bm fileMetadata else ModTime md),
        NumFiles := NumFiles md + 1,
        NumStuckChunks := NumStuckChunks md + NumStuckChunks_bm fileMetadata,
        RemoteHealth :=
          (if \<not> OnDisk fileMetadata then mathMax (RemoteHealth md) (Health_bm fileMetadata)
           else RemoteHealth md),
        Size := Size md + Size_bm fileMetadata,
        StuckHealth := mathMax (StuckHealth md) (StuckHealth_bm fileMetadata)\<rparr>"

definition fileBranch ::
  "float64 \<Rightarrow> clock \<Rightarrow> bubbledSiaFileMetadata \<Rightarrow> Metadata \<times> nat \<times> effect list
     \<Rightarrow> (Metadata \<times> aggregates) \<times> nat \<times> effect list" where
  "fileBranch thr clk bubbledMetadata st =
     (case st of (md, n, effs) \<Rightarrow>
      let zero = (LastHealthCheckTime_bm (snd bubbledMetadata) = 0);
          fileMetadata =
            (snd bubbledMetadata)
              \<lparr>LastHealthCheckTime_bm :=
                 (if zero then clk n else LastHealthCheckTime_bm (snd bubbledMetadata))\<rparr>
      in ((fileFields md fileMetadata, fileAggregates fileMetadata),
          (if zero then Suc n else n),
          effs @ [fileAlert thr (snd bubbledMetadata)]))"

text \<open>
  The branch for a subdirectory: a child never checked gets the current time and a bubble
  of its own; then the recorded values and the aggregate counters.
\<close>

definition dirAggregates :: "Metadata \<Rightarrow> aggregates" where
  "dirAggregates dirMetadata =
     \<lparr>aggregateHealth = AggregateHealth dirMetadata,
      aggregateRemoteHealth = AggregateRemoteHealth dirMetadata,
      aggregateStuckHealth = AggregateStuckHealth dirMetadata,
      aggregateMinRedundancy = AggregateMinRedundancy dirMetadata,
      aggregateLastHealthCheckTime = AggregateLastHealthCheckTime dirMetadata,
      aggregateModTime = AggregateModTime dirMetadata\<rparr>"

definition dirFields :: "Metadata \<Rightarrow> Metadata \<Rightarrow> Metadata" where
  "dirFields md dirMetadata =
     md\<lparr>AggregateNumFiles := AggregateNumFiles md + AggregateNumFiles dirMetadata,
        AggregateNumStuckChunks :=
          AggregateNumStuckChunks md + AggregateNumStuckChunks dirMetadata,
        AggregateNumSubDirs := AggregateNumSubDirs md + AggregateNumSubDirs dirMetadata + 1,
        AggregateSize := AggregateSize md + AggregateSize dirMetadata,
        NumSubDirs := NumSubDirs md + 1\<rparr>"

definition dirBranch ::
  "clock \<Rightarrow> bubbledSiaDirMetadata \<Rightarrow> Metadata \<times> nat \<times> effect list
     \<Rightarrow> (Metadata \<times> aggregates) \<times> nat \<times> effect list" where
  "dirBranch clk bubbledDir st =
     (case st of (md, n, effs) \<Rightarrow>
      let zero = (AggregateLastHealthCheckTime (snd bubbledDir) = 0);
          dirMetadata =
            (snd bubbledDir)
              \<lparr>AggregateLastHealthCheckTime :=
                 (if zero then clk n else AggregateLastHealthCheckTime (snd bubbledDir))\<rparr>
      in ((dirFields md dirMetadata, dirAggregates dirMetadata),
          (if zero then Suc n else n),
          (if zero then effs @ [LaunchBubble (fst bubbledDir)] else effs)))"

text \<open>
  The loop \<open>for len(bubbledMetadatas)+len(dirMetadatas) > 0\<close>: the files first, then the
  directories, each iteration ending with \<open>track\<close>.
\<close>

fun aggregate ::
  "float64 \<Rightarrow> clock \<Rightarrow> bubbledSiaFileMetadata list \<Rightarrow> bubbledSiaDirMetadata list
     \<Rightarrow> Metadata \<times> nat \<times> effect list \<Rightarrow> Metadata \<times> nat \<times> effect list" where
  "aggregate thr clk (f # bubbledMetadatas) dirMetadatas st =
     (case fileBranch thr clk f st of
        ((md, ag), n, effs) \<Rightarrow> aggregate thr clk bubbledMetadatas dirMetadatas (track md ag, n, effs))"
| "aggregate thr clk [] (dm # dirMetadatas) st =
     (case dirBranch clk dm st of
        ((md, ag), n, effs) \<Rightarrow> aggregate thr clk [] dirMetadatas (track md ag, n, effs))"
| "aggregate thr clk [] [] st = st"

text \<open>The sanity checks after the loop, each zero time read from the clock.\<close>

definition sanity :: "clock \<Rightarrow> Metadata \<times> nat \<Rightarrow> Metadata \<times> nat" where
  "sanity clk st =
     (case st of (md, n) \<Rightarrow>
      let z1 = (AggregateModTime md = 0);
          n1 = (if z1 then Suc n else n);
          z2 = (ModTime md = 0);
          n2 = (if z2 then Suc n1 else n1)
      in (md\<lparr>AggregateModTime := (if z1 then clk n else AggregateModTime md),
             ModTime := (if z2 then clk n1 else ModTime md),
             AggregateMinRedundancy :=
               (if feq (AggregateMinRedundancy md) MaxFloat64 then Finite (- 1)
                else AggregateMinRedundancy md),
             MinRedundancy :=
               (if feq (MinRedundancy md) MaxFloat64 then Finite (- 1)
                else MinRedundancy md)\<rparr>,
          n2))"

text \<open>
  What the walk learns about the directory's children. Listing the directory fails, or
  the stop channel is seen closed while the entries are sorted into files and
  directories, or the two parallel readers return the metadata of the files and of the
  subdirectories that could be read (in the order in which the workers finished).
\<close>

datatype children =
    ReadDirFailed error
  | StopObserved
  | Listing "bubbledSiaFileMetadata list" "bubbledSiaDirMetadata list"

text \<open>The metadata that \<open>managedCalculateDirectoryMetadata\<close> starts from.\<close>

definition startMetadata :: "time \<Rightarrow> Metadata" where
  "startMetadata now =
     \<lparr>AggregateHealth = DefaultDirHealth, AggregateLastHealthCheckTime = now,
      AggregateMinRedundancy = MaxFloat64, AggregateModTime = 0, AggregateNumFiles = 0,
      AggregateNumStuckChunks = 0, AggregateNumSubDirs = 0,
      AggregateRemoteHealth = DefaultDirHealth, AggregateSize = 0,
      AggregateStuckHealth = DefaultDirHealth, Health = DefaultDirHealth,
      LastHealthCheckTime = now, MinRedundancy = MaxFloat64, ModTime = 0, Mode = 0,
      NumFiles = 0, NumStuckChunks = 0, NumSubDirs = 0, RemoteHealth = DefaultDirHealth,
      Size = 0, StuckHealth = DefaultDirHealth, Version = []\<rparr>"

text \<open>
  \<open>managedCalculateDirectoryMetadata\<close>: the metadata, the error, the effects, and the
  number of clock readings. A stop seen while sorting the entries returns the zero
  metadata with the error of \<open>ReadDir\<close>, which is nil there.
\<close>

definition managedCalculateDirectoryMetadata ::
  "float64 \<Rightarrow> clock \<Rightarrow> children \<Rightarrow> Metadata \<times> error option \<times> effect list \<times> nat" where
  "managedCalculateDirectoryMetadata thr clk ch =
     (let now = clk 0; md0 = startMetadata now in
      case ch of
        ReadDirFailed err \<Rightarrow> (zeroMetadata, Some err, [], 1)
      | StopObserved \<Rightarrow> (zeroMetadata, None, [], 1)
      | Listing bubbledMetadatas dirMetadatas \<Rightarrow>
          (case aggregate thr clk bubbledMetadatas dirMetadatas (md0, 1, []) of
             (md, n, effs) \<Rightarrow>
               (case sanity clk (md, n) of (md', n') \<Rightarrow> (md', None, effs, n'))))"




section \<open>Bubble coordinator (modules/renter/metadata.go)\<close>

text \<open>
  \<open>bubbleStatus\<close> with its three constants; \<open>bubbleError\<close> is the zero value, which is
  what a Go map read returns for a missing key.
\<close>

datatype bubbleStatus = bubbleError | bubbleActive | bubblePending

type_synonym bubbleUpdates = "string \<rightharpoonup> bubbleStatus"

text \<open>
  \<open>managedPrepareBubble\<close>: the new map, the returned boolean, and whether
  \<open>build.Critical\<close> was called.
\<close>

definition managedPrepareBubble :: "bubbleUpdates \<Rightarrow> string \<Rightarrow> bubbleUpdates \<times> bool \<times> bool" where
  "managedPrepareBubble m siaPathStr =
     (case m siaPathStr of
        None \<Rightarrow> (m(siaPathStr \<mapsto> bubbleActive), True, False)
      | Some status \<Rightarrow>
          (m(siaPathStr \<mapsto> bubblePending), False,
           status \<noteq> bubbleActive \<and> status \<noteq> bubblePending))"

text \<open>
  \<open>managedCompleteBubbleUpdate\<close>: \<open>tgAdd\<close> says whether \<open>r.tg.Add()\<close> returned nil (it
  fails once the renter is stopping). The result is the new map, whether a goroutine
  running \<open>managedPerformBubbleMetadata\<close> was launched, and whether \<open>build.Critical\<close> was
  called.
\<close>

definition managedCompleteBubbleUpdate ::
  "bubbleUpdates \<Rightarrow> string \<Rightarrow> bool \<Rightarrow> bubbleUpdates \<times> bool \<times> bool" where
  "managedCompleteBubbleUpdate m siaPathStr tgAdd =
     (let status = (case m siaPathStr of None \<Rightarrow> bubbleError | Some s \<Rightarrow> s) in
      if status = bubbleActive then (m(siaPathStr := None), False, False)
      else if status \<noteq> bubblePending then (m(siaPathStr := None), False, True)
      else (m(siaPathStr \<mapsto> bubbleActive), tgAdd, False))"

text \<open>
  The coordinator seen from one path. A \<open>Prepare\<close> event is a caller of
  \<open>managedBubbleMetadata\<close> reaching \<open>managedPrepareBubble\<close>; when it is told to proceed it
  starts a walk. A \<open>Complete\<close> event is a running walk reaching its deferred
  \<open>managedCompleteBubbleUpdate\<close> (so it needs a walk in flight); its argument is the
  outcome of \<open>r.tg.Add()\<close> there. The record counts what happened.
\<close>

record coord =
  updates :: bubbleUpdates
  walks :: nat
  proceeds :: nat
  defers :: nat
  followups :: nat
  criticals :: nat

datatype event = Prepare | Complete bool

definition coord0 :: coord where
  "coord0 = \<lparr>updates = Map.empty, walks = 0, proceeds = 0, defers = 0, followups = 0,
             criticals = 0\<rparr>"

fun step :: "string \<Rightarrow> coord \<Rightarrow> event \<Rightarrow> coord option" where
  "step p s Prepare =
     (case managedPrepareBubble (updates s) p of
        (m, proceed, crit) \<Rightarrow>
          Some (s\<lparr>updates := m,
                 walks := walks s + (if proceed then 1 else 0),
                 proceeds := proceeds s + (if proceed then 1 else 0),
                 defers := defers s + (if proceed then 0 else 1),
                 criticals := criticals s + (if crit then 1 else 0)\<rparr>))"
| "step p s (Complete tgAdd) =
     (if walks s = 0 then None
      else case managedCompleteBubbleUpdate (updates s) p tgAdd of
        (m, launched, crit) \<Rightarrow>
          Some (s\<lparr>updates := m,
                 walks := walks s - 1 + (if launched then 1 else 0),
                 followups := followups s + (if launched then 1 else 0),
                 criticals := criticals s + (if crit then 1 else 0)\<rparr>))"

fun run :: "string \<Rightarrow> coord \<Rightarrow> event list \<Rightarrow> coord option" where
  "run p s [] = Some s"
| "run p s (e # es) = (case step p s e of None \<Rightarrow> None | Some s' \<Rightarrow> run p s' es)"

text \<open>The thread group accepts every follow-up walk of the run.\<close>

definition tgOpen :: "event list \<Rightarrow> bool" where
  "tgOpen es = (Complete False \<notin> set es)"

text \<open>
  What holds of the coordinator between events while the thread group is open: no critical
  error, at most one walk in flight, exactly when the path has an entry, and every follow-up
  walk paid for by a deferred request.
\<close>

definition coordInv :: "string \<Rightarrow> coord \<Rightarrow> bool" where
  "coordInv p s =
     (criticals s = 0 \<and> followups s \<le> defers s \<and>
      (case updates s p of
         None \<Rightarrow> walks s = 0
       | Some st \<Rightarrow>
           walks s = 1 \<and> (st = bubbleActive \<or> st = bubblePending \<and> followups s < defers s)))"

section \<open>Bubble walks (modules/renter/metadata.go)\<close>

text \<open>
  The part of the renter that a bubble of one directory touches: the coordinator's map,
  the directory's \<open>SiaDir\<close>, the disk, and the two channels of capacity one towards the
  repair loops (true when a signal is waiting).
\<close>

record 'd renter =
  bubbleUpdates :: bubbleUpdates
  siaDir :: SiaDir
  disk :: 'd
  repairNeeded :: bool
  stuckChunkFound :: bool

text \<open>
  An entry of the directory as \<open>managedUpdateLastHealthCheckTime\<close> meets it: something
  that is not a directory, or a directory with the outcome of joining its name to the
  path and reading its metadata.
\<close>

datatype dirEntry = FileEntry | DirEntry "error + Metadata"

text \<open>
  What a bubble of the directory finds around it: the collaborators of \<open>siadir\<close>, the
  build, the clock, the two thresholds, the children as the full walk reads them, the
  listing as the cheap update reads it (or the error of \<open>ReadDir\<close>), whether the stop channel
  is seen closed at the \<open>i\<close>-th iteration, the errors of opening and closing the
  directory's node, the outcome of \<open>r.tg.Add()\<close>, and the two operations of sia paths that
  the walk uses.
\<close>

record ('u, 'd) renterEnv =
  envDeps :: "('u, 'd) deps"
  envBuild :: build
  envClock :: clock
  AlertSiafileLowRedundancyThreshold :: float64
  RepairThreshold :: float64
  readChildren :: children
  readDir :: "error + dirEntry list"
  stopChan :: "nat \<Rightarrow> bool"
  openSiaDir :: "error option"
  closeSiaDir :: "error option"
  tgAdd :: bool
  IsRoot :: "SiaPath \<Rightarrow> bool"
  Dir :: "SiaPath \<Rightarrow> error + SiaPath"



text \<open>
  The signals of a walk of the root: a send that does not block, so it is dropped when a
  signal is already waiting.
\<close>

definition rootSignals ::
  "('u, 'd) renterEnv \<Rightarrow> Metadata \<Rightarrow> 'd renter \<Rightarrow> 'd renter \<times> effect list" where
  "rootSignals env md st =
     (let r = fge (AggregateHealth md) (RepairThreshold env) \<and> \<not> repairNeeded st;
          st1 = st\<lparr>repairNeeded := (repairNeeded st \<or> r)\<rparr>;
          s = AggregateNumStuckChunks md > 0 \<and> \<not> stuckChunkFound st1;
          st2 = st1\<lparr>stuckChunkFound := (stuckChunkFound st1 \<or> s)\<rparr>
      in (st2, (if r then [RepairNeeded] else []) @ (if s then [StuckChunkFound] else [])))"

text \<open>
  The middle of \<open>managedPerformBubbleMetadata\<close>: opening the directory's node and
  \<open>UpdateBubbledMetadata\<close>, each error with its context, and the deferred \<open>Close\<close> of the
  node composed into the error that the walk returns.
\<close>

definition writeMetadata ::
  "('u, 'd) renterEnv \<Rightarrow> SiaPath \<Rightarrow> Metadata \<Rightarrow> 'd renter \<Rightarrow> 'd renter \<times> outcome" where
  "writeMetadata env siaPath md st =
     (case openSiaDir env of
        Some err \<Rightarrow>
          (st, Return (Some (AddContext err (''could not open directory '' @ siaPath))))
      | None \<Rightarrow>
          (case UpdateBubbledMetadata (envDeps env) (envBuild env) (siaDir st) md (disk st) of
             (sd, d, Panic e) \<Rightarrow> (st\<lparr>siaDir := sd, disk := d\<rparr>, Panic e)
           | (sd, d, Return err) \<Rightarrow>
               (st\<lparr>siaDir := sd, disk := d\<rparr>,
                Return (Compose
                  (map_option
                     (\<lambda>e. AddContext e
                        (''could not update the metadata of the directory '' @ siaPath))
                     err)
                  (closeSiaDir env)))))"

text \<open>
  The body of \<open>managedPerformBubbleMetadata\<close>, from "Calculate the new metadata values" to
  \<open>return err\<close>: an error of the calculation returns at once, an error of the write does
  not skip the signals of the root.
\<close>

definition performBody ::
  "('u, 'd) renterEnv \<Rightarrow> SiaPath \<Rightarrow> 'd renter \<Rightarrow> 'd renter \<times> effect list \<times> outcome" where
  "performBody env siaPath st =
     (case managedCalculateDirectoryMetadata (AlertSiafileLowRedundancyThreshold env)
             (envClock env) (readChildren env) of
        (md, Some err, effs, n) \<Rightarrow>
          (st, effs,
           Return (Some (AddContext err
                           (''could not calculate the metadata of directory '' @ siaPath))))
      | (md, None, effs, n) \<Rightarrow>
          (case writeMetadata env siaPath md st of
             (st1, Panic e) \<Rightarrow> (st1, effs, Panic e)
           | (st1, Return err) \<Rightarrow>
               if IsRoot env siaPath
               then (case rootSignals env md st1 of
                       (st2, sigs) \<Rightarrow> (st2, effs @ sigs, Return err))
               else (st1, effs, Return err)))"

text \<open>
  The first deferred function of \<open>managedPerformBubbleMetadata\<close>, which runs however the
  body ends: \<open>managedCompleteBubbleUpdate\<close>, then the bubble of the parent unless the path
  is the root or has no parent. A critical error in a debug build is a panic inside
  \<open>managedCompleteBubbleUpdate\<close>, before anything is changed or launched. The third
  component is that panic, if any.
\<close>

definition deferredComplete ::
  "('u, 'd) renterEnv \<Rightarrow> SiaPath \<Rightarrow> 'd renter \<Rightarrow> 'd renter \<times> effect list \<times> error option" where
  "deferredComplete env siaPath st =
     (case managedCompleteBubbleUpdate (bubbleUpdates st) siaPath (tgAdd env) of
        (m, launched, crit) \<Rightarrow>
          if crit \<and> DEBUG (envBuild env)
          then (st, [], Some (OsError ''invalid bubble status''))
          else (st\<lparr>bubbleUpdates := m\<rparr>,
                (if launched then [FollowUpWalk siaPath] else []) @
                (if IsRoot env siaPath then []
                 else case Dir env siaPath of
                        Inl err \<Rightarrow> []
                      | Inr parentDir \<Rightarrow> [ParentBubble parentDir]),
                None))"

definition managedPerformBubbleMetadata ::
  "('u, 'd) renterEnv \<Rightarrow> SiaPath \<Rightarrow> 'd renter \<Rightarrow> 'd renter \<times> effect list \<times> outcome" where
  "managedPerformBubbleMetadata env siaPath st =
     (case performBody env siaPath st of
        (st1, effs, out) \<Rightarrow>
          (case deferredComplete env siaPath st1 of
             (st2, effs2, Some e) \<Rightarrow> (st2, effs @ effs2, Panic e)
           | (st2, effs2, None) \<Rightarrow> (st2, effs @ effs2, out)))"




text \<open>The effects that only the completion of a walk produces.\<close>

fun fromCompletion :: "effect \<Rightarrow> bool" where
  "fromCompletion (FollowUpWalk p) = True"
| "fromCompletion (ParentBubble p) = True"
| "fromCompletion e = False"

section \<open>Concrete collaborators for the examples\<close>

text \<open>
  A log that accepts everything, a disk that records the updates applied to it and fails on
  update \<open>0\<close>, a release build, a live directory, and a metadata file whose JSON has no
  version and no mode.
\<close>

definition exampleDeps :: "(nat, nat list) deps" where
  "exampleDeps =
     \<lparr>newTransaction = (\<lambda>us. None), signalSetupComplete = None, signalUpdatesApplied = None,
      applyUpdate = (\<lambda>u d. if u = 0 then (d, Some (OsError ''disk fault'')) else (d @ [u], None)),
      osRename = (\<lambda>src dst d. (d, None)),
      statNotExist = (\<lambda>p d. False),
      mkdirAllParent = (\<lambda>p d. (d, None)),
      createDeleteUpdate = (\<lambda>sd. 1),
      saveMetadataUpdate = (\<lambda>sd. Inr 2)\<rparr>"

definition exampleBuild :: build where
  "exampleBuild = \<lparr>testing = False, DEBUG = False\<rparr>"

definition exampleDir :: SiaDir where
  "exampleDir = \<lparr>metadata = zeroMetadata\<lparr>Mode := 448, Version := ''1.0''\<rparr>, deleted = False,
                  path = ''/renter/a''\<rparr>"

definition exampleLoadEnv :: "nat loadEnv" where
  "exampleLoadEnv =
     \<lparr>openFile = (\<lambda>p d. None), readAll = (\<lambda>p d. Inr []), closeFile = None,
      unmarshal = (\<lambda>bytes. (zeroMetadata\<lparr>NumFiles := 3\<rparr>, None)),
      defaultDirPerm = 493\<rparr>"


definition exampleClock :: clock where
  "exampleClock n = 100 + int n"

text \<open>
  A file of three chunks of four bytes, each chunk with one piece on the host at table
  offset 7 and the chunk index as Merkle root.
\<close>

definition exampleSiaFile :: "nat SiaFile" where
  "exampleSiaFile =
     \<lparr>numChunks = 3, staticChunkSize = 4,
      chunkOf = (\<lambda>i. Inr \<lparr>Index = i, Pieces = [[\<lparr>HostTableOffset = 7, MerkleRoot = [of_nat i]\<rparr>]]\<rparr>),
      hostKey = (\<lambda>off. unat off),
      isIncludedPartialChunk = (\<lambda>i. None),
      partialsPieces = (\<lambda>i. Inr []),
      isIncompletePartialChunk = (\<lambda>i. False),
      NumPieces = 1\<rparr>"

text \<open>
  The same file with its last chunk a partial chunk that is included in the combined file
  at index 9, where it has one piece on host 9.
\<close>

definition examplePartialFile :: "nat SiaFile" where
  "examplePartialFile =
     exampleSiaFile
       \<lparr>isIncludedPartialChunk := (\<lambda>i. if i = 2 then Some 9 else None),
        partialsPieces := (\<lambda>k. Inr [[(9, [of_nat k])]])\<rparr>"

text \<open>
  A bubble of \<open>home/a\<close>: the full walk cannot list the directory, the cheap update finds
  two subdirectories and a file, nothing is stopped, and the coordinator holds an active
  entry for the path.
\<close>

definition exampleEnv :: "(nat, nat list) renterEnv" where
  "exampleEnv =
     \<lparr>envDeps = exampleDeps, envBuild = exampleBuild, envClock = exampleClock,
      AlertSiafileLowRedundancyThreshold = Finite (3 / 4), RepairThreshold = Finite (1 / 4),
      readChildren = ReadDirFailed (OsError ''readdir''),
      readDir = Inr [DirEntry (Inr (zeroMetadata\<lparr>AggregateLastHealthCheckTime := 40\<rparr>)),
                     FileEntry,
                     DirEntry (Inr (zeroMetadata\<lparr>AggregateLastHealthCheckTime := 70\<rparr>))],
      stopChan = (\<lambda>i. False), openSiaDir = None, closeSiaDir = None, tgAdd = True,
      IsRoot = (\<lambda>p. p = []), Dir = (\<lambda>p. Inr ''home'')\<rparr>"

definition exampleRenter :: "nat list renter" where
  "exampleRenter =
     \<lparr>bubbleUpdates = [''home/a'' \<mapsto> bubbleActive], siaDir = exampleDir, disk = [],
      repairNeeded = False, stuckChunkFound = False\<rparr>"


section \<open>Properties of the bubble coordinator\<close>

lemma step_inv:
  "coordInv p s \<Longrightarrow> step p s e = Some s' \<Longrightarrow> e \<noteq> Complete False \<Longrightarrow> coordInv p s'"
  by (cases e; cases "updates s p")
     (auto simp: coordInv_def managedPrepareBubble_def managedCompleteBubbleUpdate_def Let_def
           split: if_splits option.splits bubbleStatus.splits)

lemma step_proceeds: "step p s e = Some s' \<Longrightarrow> proceeds s \<le> proceeds s'"
  by (cases e)
     (auto simp: managedPrepareBubble_def managedCompleteBubbleUpdate_def Let_def
           split: if_splits option.splits prod.splits)

lemma run_inv:
  "coordInv p s \<Longrightarrow> run p s es = Some s' \<Longrightarrow> tgOpen es \<Longrightarrow> coordInv p s'"
proof (induction es arbitrary: s)
  case Nil then show ?case by simp
next
  case (Cons e es)
  from Cons.prems(2) obtain t where t: "step p s e = Some t" and r: "run p t es = Some s'"
    by (auto split: option.splits)
  from Cons.prems(3) have "e \<noteq> Complete False" "tgOpen es" by (auto simp: tgOpen_def)
  with step_inv[OF Cons.prems(1) t] Cons.IH r show ?case by blast
qed

lemma run_proceeds: "run p s es = Some s' \<Longrightarrow> proceeds s \<le> proceeds s'"
proof (induction es arbitrary: s)
  case Nil then show ?case by simp
next
  case (Cons e es)
  then obtain t where t: "step p s e = Some t" and r: "run p t es = Some s'"
    by (auto split: option.splits)
  from step_proceeds[OF t] Cons.IH[OF r] show ?case by simp
qed

lemma run_first_proceeds:
  assumes "updates s p = None" "walks s = 0" "es \<noteq> []" "run p s es = Some s'"
  shows "proceeds s < proceeds s'"
proof -
  from assms(3) obtain e es' where es: "es = e # es'" by (cases es) auto
  with assms(4) obtain t where t: "step p s e = Some t" and r: "run p t es' = Some s'"
    by (auto split: option.splits)
  from t assms(1,2) have "proceeds t = proceeds s + 1"
    by (cases e) (auto simp: managedPrepareBubble_def split: if_splits)
  with run_proceeds[OF r] show ?thesis by simp
qed

lemma run_append: "run p s (xs @ ys) = (case run p s xs of None \<Rightarrow> None | Some t \<Rightarrow> run p t ys)"
  by (induction xs arbitrary: s) (auto split: option.splits)

lemma run_defers:
  "updates s p = Some st \<Longrightarrow> st \<noteq> bubbleError \<Longrightarrow>
   \<exists>s'. run p s (replicate (Suc k) Prepare) = Some s' \<and>
        updates s' = (updates s)(p \<mapsto> bubblePending) \<and> walks s' = walks s \<and>
        proceeds s' = proceeds s \<and> defers s' = defers s + Suc k \<and>
        followups s' = followups s \<and> criticals s' = criticals s"
proof (induction k arbitrary: s st)
  case 0
  then show ?case by (cases st) (auto simp: managedPrepareBubble_def)
next
  case (Suc k)
  obtain t where t: "step p s Prepare = Some t"
    by (cases "managedPrepareBubble (updates s) p") auto
  with Suc.prems have u: "updates t = (updates s)(p \<mapsto> bubblePending)" "walks t = walks s"
     "proceeds t = proceeds s" "defers t = defers s + 1" "followups t = followups s"
     "criticals t = criticals s"
    by (cases st; auto simp: managedPrepareBubble_def)+
  then have "updates t p = Some bubblePending" by simp
  from Suc.IH[OF this] obtain s' where s':
    "run p t (replicate (Suc k) Prepare) = Some s' \<and>
     updates s' = (updates t)(p \<mapsto> bubblePending) \<and> walks s' = walks t \<and>
     proceeds s' = proceeds t \<and> defers s' = defers t + Suc k \<and> followups s' = followups t \<and>
     criticals s' = criticals t" by blast
  have "run p s (replicate (Suc (Suc k)) Prepare) = run p t (replicate (Suc k) Prepare)"
    using t by (simp del: step.simps)
  with s' u show ?case
    by (intro exI[of _ s']) (simp del: step.simps run.simps replicate_Suc)
qed

lemma coalesce:
  assumes "updates s p = Some bubbleActive" "0 < walks s"
  shows "\<exists>s'. run p s (replicate (Suc k) Prepare @ [Complete tg]) = Some s' \<and>
           updates s' = (updates s)(p \<mapsto> bubbleActive) \<and>
           defers s' = defers s + Suc k \<and>
           followups s' = followups s + (if tg then 1 else 0) \<and>
           walks s' = walks s - 1 + (if tg then 1 else 0)"
proof -
  from run_defers[OF assms(1), of k] obtain t where
    t: "run p s (replicate (Suc k) Prepare) = Some t"
    "updates t = (updates s)(p \<mapsto> bubblePending)" "walks t = walks s"
    "defers t = defers s + Suc k" "followups t = followups s"
    by auto
  with assms(2) show ?thesis
    by (auto simp: run_append managedCompleteBubbleUpdate_def simp del: replicate_Suc run.simps(2))
       (auto simp: managedCompleteBubbleUpdate_def)
qed


text \<open>
  C1 (as amended). \<open>managedPrepareBubble\<close> tells the caller to proceed exactly when the path
  has no entry, and leaves the entry active in that case and pending otherwise.
  \<open>managedCompleteBubbleUpdate\<close> removes an active entry and launches nothing; on a pending
  entry it sets the entry back to active and launches a follow-up walk exactly when
  \<open>r.tg.Add()\<close> succeeded. Any positive number of deferred requests during one walk is
  answered by one follow-up walk. In every run of events from the empty map during which the
  thread group stays open, no critical error is raised, a walk is in flight exactly when the
  path has an entry, the first request was told to proceed, and with no walk left in flight
  the entry is absent.
\<close>

theorem bubble_coalescing:
  "fst (snd (managedPrepareBubble m p)) = (m p = None) \<and>
   fst (managedPrepareBubble m p) p = Some (if m p = None then bubbleActive else bubblePending) \<and>
   (m p = Some bubbleActive \<longrightarrow>
      fst (managedCompleteBubbleUpdate m p tg) p = None \<and>
      \<not> fst (snd (managedCompleteBubbleUpdate m p tg))) \<and>
   (m p = Some bubblePending \<longrightarrow>
      fst (managedCompleteBubbleUpdate m p tg) p = Some bubbleActive \<and>
      fst (snd (managedCompleteBubbleUpdate m p tg)) = tg) \<and>
   (updates s p = Some bubbleActive \<and> walks s = 1 \<longrightarrow>
      (\<exists>s'. run p s (replicate (Suc k) Prepare @ [Complete True]) = Some s' \<and>
            updates s' p = Some bubbleActive \<and> defers s' = defers s + Suc k \<and>
            followups s' = followups s + 1 \<and> walks s' = 1)) \<and>
   (run p coord0 es = Some t \<and> tgOpen es \<longrightarrow>
      criticals t = 0 \<and> walks t = (if updates t p = None then 0 else 1) \<and>
      followups t \<le> defers t \<and> (es \<noteq> [] \<longrightarrow> 1 \<le> proceeds t) \<and>
      (walks t = 0 \<longrightarrow> updates t p = None))"
proof -
  have prep: "fst (snd (managedPrepareBubble m p)) = (m p = None)"
    "fst (managedPrepareBubble m p) p = Some (if m p = None then bubbleActive else bubblePending)"
    by (auto simp: managedPrepareBubble_def split: option.splits)
  have compl: "m p = Some bubbleActive \<longrightarrow>
      fst (managedCompleteBubbleUpdate m p tg) p = None \<and>
      \<not> fst (snd (managedCompleteBubbleUpdate m p tg))"
    "m p = Some bubblePending \<longrightarrow>
      fst (managedCompleteBubbleUpdate m p tg) p = Some bubbleActive \<and>
      fst (snd (managedCompleteBubbleUpdate m p tg)) = tg"
    by (auto simp: managedCompleteBubbleUpdate_def)
  have coal: "updates s p = Some bubbleActive \<and> walks s = 1 \<longrightarrow>
      (\<exists>s'. run p s (replicate (Suc k) Prepare @ [Complete True]) = Some s' \<and>
            updates s' p = Some bubbleActive \<and> defers s' = defers s + Suc k \<and>
            followups s' = followups s + 1 \<and> walks s' = 1)"
  proof
    assume a: "updates s p = Some bubbleActive \<and> walks s = 1"
    then have "0 < walks s" by simp
    from coalesce[OF conjunct1[OF a] this, of k True] a show
      "\<exists>s'. run p s (replicate (Suc k) Prepare @ [Complete True]) = Some s' \<and>
            updates s' p = Some bubbleActive \<and> defers s' = defers s + Suc k \<and>
            followups s' = followups s + 1 \<and> walks s' = 1"
      by (auto simp del: replicate_Suc)
  qed
  have runs: "run p coord0 es = Some t \<and> tgOpen es \<longrightarrow>
      criticals t = 0 \<and> walks t = (if updates t p = None then 0 else 1) \<and>
      followups t \<le> defers t \<and> (es \<noteq> [] \<longrightarrow> 1 \<le> proceeds t) \<and>
      (walks t = 0 \<longrightarrow> updates t p = None)"
  proof
    assume a: "run p coord0 es = Some t \<and> tgOpen es"
    have i0: "coordInv p coord0" by (simp add: coordInv_def coord0_def)
    from run_inv[OF i0] a have i: "coordInv p t" by blast
    have pr: "es \<noteq> [] \<longrightarrow> 1 \<le> proceeds t"
    proof
      assume "es \<noteq> []"
      from run_first_proceeds[of coord0 p es t] this a show "1 \<le> proceeds t"
        by (simp add: coord0_def)
    qed
    from i pr show "criticals t = 0 \<and> walks t = (if updates t p = None then 0 else 1) \<and>
      followups t \<le> defers t \<and> (es \<noteq> [] \<longrightarrow> 1 \<le> proceeds t) \<and>
      (walks t = 0 \<longrightarrow> updates t p = None)"
      by (auto simp: coordInv_def split: option.splits)
  qed
  from prep compl coal runs show ?thesis by blast
qed

text \<open>The theorem at a run of three requests and two completions on path \<open>a\<close>.\<close>

theorem bubble_coalescing_witness:
  "run ''a'' coord0 [Prepare, Prepare, Prepare, Complete True, Complete True] =
     Some \<lparr>updates = Map.empty, walks = 0, proceeds = 1, defers = 2, followups = 1,
           criticals = 0\<rparr> \<and>
   tgOpen [Prepare, Prepare, Prepare, Complete True, Complete True] \<and>
   1 \<le> proceeds \<lparr>updates = Map.empty, walks = 0, proceeds = 1, defers = 2, followups = 1,
           criticals = (0::nat)\<rparr> \<and>
   fst (managedCompleteBubbleUpdate [''a'' \<mapsto> bubblePending] ''a'' True) ''a'' = Some bubbleActive \<and>
   fst (managedCompleteBubbleUpdate [''a'' \<mapsto> bubbleActive] ''a'' True) ''a'' = None \<and>
   (\<exists>s'. run ''a'' \<lparr>updates = [''a'' \<mapsto> bubbleActive], walks = 1, proceeds = 1, defers = 0,
                     followups = 0, criticals = 0\<rparr>
              (replicate (Suc 4) Prepare @ [Complete True]) = Some s' \<and>
         updates s' ''a'' = Some bubbleActive \<and> defers s' = 5 \<and> followups s' = 1 \<and> walks s' = 1)"
proof -
  let ?es = "[Prepare, Prepare, Prepare, Complete True, Complete True]"
  let ?t = "\<lparr>updates = Map.empty, walks = 0, proceeds = 1, defers = 2, followups = 1,
           criticals = (0::nat)\<rparr>"
  let ?s = "\<lparr>updates = [''a'' \<mapsto> bubbleActive], walks = 1, proceeds = 1, defers = 0,
                     followups = 0, criticals = (0::nat)\<rparr>"
  have r: "run ''a'' coord0 ?es = Some ?t"
    by (simp add: coord0_def managedPrepareBubble_def managedCompleteBubbleUpdate_def)
  have o: "tgOpen ?es" by (simp add: tgOpen_def)
  have h: "updates ?s ''a'' = Some bubbleActive \<and> walks ?s = 1" by simp
  have pend: "[''a'' \<mapsto> bubblePending] ''a'' = Some bubblePending" by simp
  have act: "[''a'' \<mapsto> bubbleActive] ''a'' = Some bubbleActive" by simp
  from bubble_coalescing[of "[''a'' \<mapsto> bubblePending]" "''a''" True ?s 4 ?es ?t]
       bubble_coalescing[of "[''a'' \<mapsto> bubbleActive]" "''a''" True ?s 4 ?es ?t]
       r o h pend act
  show ?thesis by (simp del: replicate_Suc run.simps step.simps)
qed

text \<open>
  With the renter stopping, \<open>r.tg.Add()\<close> fails: the completion of a walk that had a request
  deferred on it sets the entry to active and returns without launching the follow-up walk.
  No walk is in flight and the entry stays.
\<close>

theorem bubble_coalescing_counterexample:
  "run ''a'' coord0 [Prepare, Prepare, Complete False] =
     Some \<lparr>updates = [''a'' \<mapsto> bubbleActive], walks = 0, proceeds = 1, defers = 1,
           followups = 0, criticals = 0\<rparr>"
  by (simp add: coord0_def managedPrepareBubble_def managedCompleteBubbleUpdate_def)


section \<open>Properties of the write-ahead transaction\<close>

text \<open>
  C6. In \<open>CreateAndApplyTransaction\<close>, an error of \<open>NewTransaction\<close> or of
  \<open>SignalSetupComplete\<close> is returned to the caller with its context and the disk is not
  touched. Once the setup is signalled, the call never returns an error: a failure of
  \<open>ApplyUpdates\<close> or of \<open>SignalUpdatesApplied\<close> is a panic carrying that error, and
  otherwise the call returns nil.
\<close>

theorem CreateAndApplyTransaction_escalates:
  "(newTransaction dp us = Some e \<longrightarrow>
      CreateAndApplyTransaction dp us d =
        (d, Return (Some (AddContext e ''failed to create wal txn'')))) \<and>
   (newTransaction dp us = None \<and> signalSetupComplete dp = Some e \<longrightarrow>
      CreateAndApplyTransaction dp us d =
        (d, Return (Some (AddContext e ''failed to signal setup completion'')))) \<and>
   (newTransaction dp us = None \<and> signalSetupComplete dp = None \<longrightarrow>
      (\<forall>e'. snd (CreateAndApplyTransaction dp us d) \<noteq> Return (Some e')) \<and>
      (snd (ApplyUpdates dp us d) = Some e \<longrightarrow>
         snd (CreateAndApplyTransaction dp us d) =
           Panic (AddContext e ''failed to apply updates'')) \<and>
      (snd (ApplyUpdates dp us d) = None \<and> signalUpdatesApplied dp = Some e \<longrightarrow>
         snd (CreateAndApplyTransaction dp us d) =
           Panic (AddContext e ''failed to signal that updates are applied'')) \<and>
      (snd (ApplyUpdates dp us d) = None \<and> signalUpdatesApplied dp = None \<longrightarrow>
         CreateAndApplyTransaction dp us d = (fst (ApplyUpdates dp us d), Return None)))"
  by (auto simp: CreateAndApplyTransaction_def panicIfErr_def split: option.splits prod.splits)

text \<open>
  The theorem on three updates of which the second fails on the disk, and on a log that
  refuses the transaction.
\<close>

theorem CreateAndApplyTransaction_escalates_witness:
  "newTransaction exampleDeps [1, 0, 2] = None \<and> signalSetupComplete exampleDeps = None \<and>
   snd (ApplyUpdates exampleDeps [1, 0, 2] []) =
     Some (AddContext (OsError ''disk fault'') ''failed to apply update'') \<and>
   CreateAndApplyTransaction exampleDeps [1, 0, 2] [] =
     ([1], Panic (AddContext (AddContext (OsError ''disk fault'') ''failed to apply update'')
                    ''failed to apply updates'')) \<and>
   newTransaction (exampleDeps\<lparr>newTransaction := (\<lambda>us. Some (OsError ''wal''))\<rparr>) [1, 0, 2] =
     Some (OsError ''wal'') \<and>
   CreateAndApplyTransaction (exampleDeps\<lparr>newTransaction := (\<lambda>us. Some (OsError ''wal''))\<rparr>)
       [1, 0, 2] [] =
     ([], Return (Some (AddContext (OsError ''wal'') ''failed to create wal txn'')))"
proof -
  let ?e = "AddContext (OsError ''disk fault'') ''failed to apply update''"
  let ?dp = "exampleDeps\<lparr>newTransaction := (\<lambda>us. Some (OsError ''wal''))\<rparr>"
  have h1: "newTransaction exampleDeps [1, 0, 2] = None \<and> signalSetupComplete exampleDeps = None"
    by (simp add: exampleDeps_def)
  have h2: "ApplyUpdates exampleDeps [1, 0, 2] [] = ([1], Some ?e)"
    by (simp add: exampleDeps_def)
  have h3: "newTransaction ?dp [1, 0, 2] = Some (OsError ''wal'')" by simp
  have "snd (CreateAndApplyTransaction exampleDeps [1, 0, 2] []) =
          Panic (AddContext ?e ''failed to apply updates'')"
    using CreateAndApplyTransaction_escalates[of exampleDeps "[1, 0, 2]" ?e "[]"] h1 h2 by simp
  moreover have "fst (CreateAndApplyTransaction exampleDeps [1, 0, 2] []) = [1]"
    using h1 h2 by (simp add: CreateAndApplyTransaction_def)
  ultimately have c1: "CreateAndApplyTransaction exampleDeps [1, 0, 2] [] =
     ([1], Panic (AddContext ?e ''failed to apply updates''))"
    by (simp add: prod_eq_iff)
  have c2: "CreateAndApplyTransaction ?dp [1, 0, 2] [] =
     ([], Return (Some (AddContext (OsError ''wal'') ''failed to create wal txn'')))"
    using CreateAndApplyTransaction_escalates[of ?dp "[1, 0, 2]" "OsError ''wal''" "[]"] h3
    by simp
  from h1 h2 h3 c1 c2 show ?thesis by simp
qed

section \<open>Properties of the directory metadata store\<close>

lemma copyMetadata_eq: "copyMetadata m md = md"
  by (simp add: copyMetadata_def)

lemma saveDir_sd: "fst (saveDir dp sd d) = sd"
  by (simp add: saveDir_def split: sum.splits prod.splits)

lemma updateMetadata_live:
  "\<not> deleted sd \<Longrightarrow> fst (updateMetadata dp bld sd md d) = sd\<lparr>metadata := md\<rparr>"
  by (simp add: updateMetadata_def Let_def copyMetadata_eq saveDir_sd split: prod.splits option.splits)

lemma updateMetadata_deleted:
  "deleted sd \<Longrightarrow>
   updateMetadata dp bld sd md d =
     (sd, d, Return (Some (AddContext ErrDeleted
                             ''cannot update the metadata for a deleted directory'')))"
  by (simp add: updateMetadata_def)

text \<open>
  C7 (as amended). For every \<open>SiaDir\<close> that is not marked deleted and every input
  metadata, \<open>UpdateBubbledMetadata\<close> leaves in the directory the input's value of every
  field except \<open>Mode\<close> and \<open>Version\<close>, which keep the values they had; the tombstone and
  the path are unchanged. This holds however the write to disk ends.
\<close>

theorem UpdateBubbledMetadata_frame:
  "\<not> deleted sd \<Longrightarrow>
   fst (UpdateBubbledMetadata dp bld sd md d) =
     sd\<lparr>metadata := md\<lparr>Mode := Mode (metadata sd), Version := Version (metadata sd)\<rparr>\<rparr>"
  by (simp add: UpdateBubbledMetadata_def updateMetadata_live)

text \<open>The theorem on a live directory with mode 0700 and version 1.0.\<close>

theorem UpdateBubbledMetadata_frame_witness:
  "\<not> deleted exampleDir \<and>
   fst (UpdateBubbledMetadata exampleDeps exampleBuild exampleDir
          (zeroMetadata\<lparr>AggregateNumFiles := 7, NumFiles := 5\<rparr>) []) =
     \<lparr>metadata = zeroMetadata\<lparr>AggregateNumFiles := 7, NumFiles := 5, Mode := 448,
                                Version := ''1.0''\<rparr>,
      deleted = False, path = ''/renter/a''\<rparr>"
proof -
  have h: "\<not> deleted exampleDir" by (simp add: exampleDir_def)
  from UpdateBubbledMetadata_frame[OF h, of exampleDeps exampleBuild
         "zeroMetadata\<lparr>AggregateNumFiles := 7, NumFiles := 5\<rparr>" "[]"] h
  show ?thesis by (simp add: exampleDir_def zeroMetadata_def)
qed

text \<open>
  On a directory marked deleted the bubbled fields are not replaced: the number of files
  stays 0 when the input says 5.
\<close>

theorem UpdateBubbledMetadata_frame_counterexample:
  "NumFiles (metadata (fst (UpdateBubbledMetadata exampleDeps exampleBuild
       (exampleDir\<lparr>deleted := True\<rparr>) (zeroMetadata\<lparr>NumFiles := 5\<rparr>) []))) = 0"
  by (simp add: UpdateBubbledMetadata_def updateMetadata_def exampleDir_def zeroMetadata_def)

text \<open>
  C9 (as amended). On a \<open>SiaDir\<close> marked deleted, the metadata updates
  (\<open>UpdateMetadata\<close>, \<open>UpdateBubbledMetadata\<close>, \<open>UpdateLastHealthCheckTime\<close>), \<open>saveDir\<close>,
  \<open>Rename\<close> and \<open>SetPath\<close> return an error that contains \<open>ErrDeleted\<close> and leave the
  directory and the disk unchanged; \<open>Delete\<close> leaves them unchanged too and returns nil.
\<close>

theorem deleted_operations:
  "deleted sd \<Longrightarrow>
   (\<exists>e. UpdateMetadata dp bld sd md d = (sd, d, Return (Some e)) \<and> Contains e ErrDeleted) \<and>
   (\<exists>e. UpdateBubbledMetadata dp bld sd md d = (sd, d, Return (Some e)) \<and> Contains e ErrDeleted) \<and>
   (\<exists>e. UpdateLastHealthCheckTime dp bld sd t1 t2 d = (sd, d, Return (Some e)) \<and>
        Contains e ErrDeleted) \<and>
   (\<exists>e. saveDir dp sd d = (sd, d, Return (Some e)) \<and> Contains e ErrDeleted) \<and>
   (\<exists>e. Rename dp sd targetPath d = (sd, d, Return (Some e)) \<and> Contains e ErrDeleted) \<and>
   (\<exists>e. SetPath sd targetPath = (sd, Some e) \<and> Contains e ErrDeleted) \<and>
   Delete dp sd d = (sd, d, Return None)"
  by (simp add: UpdateMetadata_def UpdateBubbledMetadata_def UpdateLastHealthCheckTime_def
        updateMetadata_deleted saveDir_def Rename_def SetPath_def Delete_def)

text \<open>The theorem on a tombstoned directory.\<close>

theorem deleted_operations_witness:
  "deleted (exampleDir\<lparr>deleted := True\<rparr>) \<and>
   Rename exampleDeps (exampleDir\<lparr>deleted := True\<rparr>) ''/renter/b'' [] =
     (exampleDir\<lparr>deleted := True\<rparr>, [],
      Return (Some (AddContext ErrDeleted ''cannot rename a deleted SiaDir''))) \<and>
   Delete exampleDeps (exampleDir\<lparr>deleted := True\<rparr>) [] =
     (exampleDir\<lparr>deleted := True\<rparr>, [], Return None)"
proof -
  have h: "deleted (exampleDir\<lparr>deleted := True\<rparr>)" by simp
  from deleted_operations[OF h, of exampleDeps exampleBuild zeroMetadata "[]" 0 0 "''/renter/b''"]
  have "Delete exampleDeps (exampleDir\<lparr>deleted := True\<rparr>) [] =
     (exampleDir\<lparr>deleted := True\<rparr>, [], Return None)" by blast
  with h show ?thesis by (simp add: Rename_def)
qed

text \<open>\<open>Delete\<close> on a directory that is already deleted returns nil, not \<open>ErrDeleted\<close>.\<close>

theorem deleted_operations_counterexample:
  "snd (snd (Delete exampleDeps (exampleDir\<lparr>deleted := True\<rparr>) [])) = Return None"
  by (simp add: Delete_def)

text \<open>
  C8 (as amended). When the metadata file opens and reads, \<open>callLoadSiaDirMetadata\<close>
  returns the decoded metadata with \<open>Mode\<close> set to the default directory permission and
  \<open>Version\<close> set to \<open>1.0\<close> exactly when the decoded version is empty and the decoded
  mode is zero; otherwise it returns the decoded metadata as it is. The disk is not
  written.
\<close>

theorem callLoadSiaDirMetadata_upgrade:
  "openFile env p d = None \<Longrightarrow> readAll env p d = Inr bytes \<Longrightarrow>
   callLoadSiaDirMetadata env p d =
     (d,
      (if Version (fst (unmarshal env bytes)) = [] \<and> Mode (fst (unmarshal env bytes)) = 0
       then (fst (unmarshal env bytes))\<lparr>Mode := defaultDirPerm env, Version := ''1.0''\<rparr>
       else fst (unmarshal env bytes)),
      Compose (snd (unmarshal env bytes)) (closeFile env))"
  by (simp add: callLoadSiaDirMetadata_def Let_def split: prod.splits)

text \<open>The theorem on a file whose JSON sets neither version nor mode.\<close>

theorem callLoadSiaDirMetadata_upgrade_witness:
  "openFile exampleLoadEnv ''/renter/a/.siadir'' (0::nat) = None \<and>
   readAll exampleLoadEnv ''/renter/a/.siadir'' (0::nat) = Inr [] \<and>
   callLoadSiaDirMetadata exampleLoadEnv ''/renter/a/.siadir'' 0 =
     (0, zeroMetadata\<lparr>NumFiles := 3, Mode := 493, Version := ''1.0''\<rparr>, None)"
proof -
  have h1: "openFile exampleLoadEnv ''/renter/a/.siadir'' (0::nat) = None"
    by (simp add: exampleLoadEnv_def)
  have h2: "readAll exampleLoadEnv ''/renter/a/.siadir'' (0::nat) = Inr []"
    by (simp add: exampleLoadEnv_def)
  from callLoadSiaDirMetadata_upgrade[OF h1 h2] h1 h2
  show ?thesis by (simp add: exampleLoadEnv_def zeroMetadata_def)
qed

text \<open>
  A file whose JSON has no version but sets the mode to 0700 is not upgraded: the version
  stays empty and the mode stays 0700.
\<close>

theorem callLoadSiaDirMetadata_upgrade_counterexample:
  "Version (fst (snd (callLoadSiaDirMetadata
     (exampleLoadEnv\<lparr>unmarshal := (\<lambda>bytes. (zeroMetadata\<lparr>Mode := 448\<rparr>, None))\<rparr>)
     ''/renter/a/.siadir'' (0::nat)))) = [] \<and>
   Mode (fst (snd (callLoadSiaDirMetadata
     (exampleLoadEnv\<lparr>unmarshal := (\<lambda>bytes. (zeroMetadata\<lparr>Mode := 448\<rparr>, None))\<rparr>)
     ''/renter/a/.siadir'' (0::nat)))) = 448"
  by (simp add: callLoadSiaDirMetadata_def exampleLoadEnv_def zeroMetadata_def)

section \<open>Properties of the directory metadata calculation\<close>

lemma track_NumSubDirs [simp]: "AggregateNumSubDirs (track md ag) = AggregateNumSubDirs md"
  by (simp add: track_def)


lemma fileBranch_fields:
  "fileBranch thr clk f (md, n, effs) = ((md', ag), n', effs') \<Longrightarrow>
   AggregateNumSubDirs md' = AggregateNumSubDirs md \<and>
   AggregateMinRedundancy md' = AggregateMinRedundancy md \<and>
   aggregateMinRedundancy ag = Redundancy (snd f)"
  by (auto simp: fileBranch_def Let_def fileFields_def fileAggregates_def)

lemma dirBranch_fields:
  "dirBranch clk dm (md, n, effs) = ((md', ag), n', effs') \<Longrightarrow>
   AggregateNumSubDirs md' = AggregateNumSubDirs md + AggregateNumSubDirs (snd dm) + 1 \<and>
   AggregateMinRedundancy md' = AggregateMinRedundancy md \<and>
   aggregateMinRedundancy ag = AggregateMinRedundancy (snd dm)"
  by (auto simp: dirBranch_def Let_def dirFields_def dirAggregates_def)

lemma aggregate_NumSubDirs:
  "AggregateNumSubDirs (fst (aggregate thr clk fs ds st)) =
     AggregateNumSubDirs (fst st) + sum_list (map (\<lambda>d. AggregateNumSubDirs (snd d) + 1) ds)"
proof (induction thr clk fs ds st rule: aggregate.induct)
  case (1 thr clk f fs ds st)
  obtain md n effs where st: "st = (md, n, effs)" by (cases st) auto
  obtain md' ag n' effs' where fb: "fileBranch thr clk f st = ((md', ag), n', effs')"
    by (metis prod.exhaust)
  from fileBranch_fields[OF fb[unfolded st]] 1[OF fb[symmetric] refl refl] fb st
  show ?case by simp
next
  case (2 thr clk dm ds st)
  obtain md n effs where st: "st = (md, n, effs)" by (cases st) auto
  obtain md' ag n' effs' where db: "dirBranch clk dm st = ((md', ag), n', effs')"
    by (metis prod.exhaust)
  from dirBranch_fields[OF db[unfolded st]] 2[OF db[symmetric] refl refl] db st
  show ?case by (simp add: algebra_simps)
next
  case (3 thr clk st)
  then show ?case by simp
qed


lemma sanity_NumSubDirs [simp]:
  "AggregateNumSubDirs (fst (sanity clk (md, n))) = AggregateNumSubDirs md"
  by (simp add: sanity_def Let_def split: prod.splits)


lemma calc_Listing:
  "fst (managedCalculateDirectoryMetadata thr clk (Listing fs ds)) =
     fst (sanity clk (fst (aggregate thr clk fs ds (startMetadata (clk 0), 1, [])),
                      fst (snd (aggregate thr clk fs ds (startMetadata (clk 0), 1, [])))))"
  by (simp add: managedCalculateDirectoryMetadata_def Let_def split: prod.splits)

lemma calc_NumSubDirs:
  "AggregateNumSubDirs (fst (managedCalculateDirectoryMetadata thr clk (Listing fs ds))) =
     sum_list (map (\<lambda>d. AggregateNumSubDirs (snd d) + 1) ds)"
  by (simp add: calc_Listing aggregate_NumSubDirs startMetadata_def)



text \<open>
  C2 (as amended). When the children of a directory are read, the calculation returns no
  error and an \<open>AggregateNumSubDirs\<close> that is the sum, over the child directories read, of
  one plus the child's \<open>AggregateNumSubDirs\<close>: each child directory counts itself once at
  its parent, so the result is the number of child directories plus the sum of their
  aggregates (in 64-bit arithmetic), for any list of child metadata in any order.
\<close>

theorem aggregate_num_sub_dirs:
  "AggregateNumSubDirs (fst (managedCalculateDirectoryMetadata thr clk (Listing fs ds))) =
     sum_list (map (\<lambda>d. AggregateNumSubDirs (snd d) + 1) ds) \<and>
   AggregateNumSubDirs (fst (managedCalculateDirectoryMetadata thr clk (Listing fs ds))) =
     of_nat (length ds) + sum_list (map (\<lambda>d. AggregateNumSubDirs (snd d)) ds) \<and>
   fst (snd (managedCalculateDirectoryMetadata thr clk (Listing fs ds))) = None"
proof -
  have "sum_list (map (\<lambda>d. AggregateNumSubDirs (snd d) + 1) ds) =
        of_nat (length ds) + sum_list (map (\<lambda>d. AggregateNumSubDirs (snd d)) ds)"
    by (induction ds) (simp_all add: algebra_simps)
  moreover have "fst (snd (managedCalculateDirectoryMetadata thr clk (Listing fs ds))) = None"
    by (simp add: managedCalculateDirectoryMetadata_def Let_def split: prod.splits)
  ultimately show ?thesis using calc_NumSubDirs[of thr clk fs ds] by simp
qed

text \<open>
  Two child directories without subdirectories give 2 where one plus the sum of the
  children's aggregates is 1, and a directory without child directories gives 0.
\<close>

theorem aggregate_num_sub_dirs_counterexample:
  "AggregateNumSubDirs (fst (managedCalculateDirectoryMetadata (Finite (3 / 4)) exampleClock
      (Listing [] [(''a'', zeroMetadata), (''b'', zeroMetadata)]))) = 2 \<and>
   1 + (AggregateNumSubDirs zeroMetadata + AggregateNumSubDirs zeroMetadata) = 1 \<and>
   AggregateNumSubDirs (fst (managedCalculateDirectoryMetadata (Finite (3 / 4)) exampleClock
      (Listing [] []))) = 0"
  by (simp add: calc_NumSubDirs zeroMetadata_def)





section \<open>Properties of the snapshot engine\<close>

lemma readlockLoop_Inr:
  "readlockLoop sf mn mx is acc = Inr cs \<Longrightarrow>
   cs = acc @ map (pickChunk sf mn mx) is \<and>
   (\<forall>i\<in>set is. \<not> (int i < mn \<or> int i > mx) \<longrightarrow> (\<exists>c. chunkOf sf i = Inr c))"
proof (induction "is" arbitrary: acc)
  case Nil then show ?case by simp
next
  case (Cons i "is")
  show ?case
  proof (cases "int i < mn \<or> int i > mx")
    case True
    with Cons.prems have "readlockLoop sf mn mx is (acc @ [\<lparr>Index = i, Pieces = []\<rparr>]) = Inr cs"
      by simp
    from Cons.IH[OF this] True show ?thesis by (auto simp: pickChunk_def stub_def)
  next
    case False
    with Cons.prems obtain c where c: "chunkOf sf i = Inr c"
      and r: "readlockLoop sf mn mx is (acc @ [c]) = Inr cs"
      by (auto split: sum.splits)
    from Cons.IH[OF r] False c show ?thesis by (auto simp: pickChunk_def)
  qed
qed

lemma readlockLoop_total:
  "\<forall>i\<in>set is. \<not> (int i < mn \<or> int i > mx) \<longrightarrow> (\<exists>c. chunkOf sf i = Inr c) \<Longrightarrow>
   \<exists>cs. readlockLoop sf mn mx is acc = Inr cs"
  by (induction "is" arbitrary: acc) (auto split: sum.splits)

lemma exportChunks_Inr:
  "exportChunks sf cs acc = Inr out \<Longrightarrow>
   \<exists>ys. out = acc @ ys \<and> list_all2 (\<lambda>c y. exportChunk sf c = Inr y) cs ys"
proof (induction cs arbitrary: acc)
  case Nil then show ?case by simp
next
  case (Cons c cs)
  then obtain e where e: "exportChunk sf c = Inr e"
    and r: "exportChunks sf cs (acc @ [e]) = Inr out"
    by (auto split: sum.splits)
  from Cons.IH[OF r] obtain ys where "out = (acc @ [e]) @ ys"
    "list_all2 (\<lambda>c y. exportChunk sf c = Inr y) cs ys" by blast
  with e show ?case by (intro exI[of _ "e # ys"]) simp
qed

lemma exportChunks_total:
  "\<forall>c\<in>set cs. \<exists>y. exportChunk sf c = Inr y \<Longrightarrow> \<exists>out. exportChunks sf cs acc = Inr out"
  by (induction cs arbitrary: acc) (auto split: sum.splits)

lemma exportChunk_stub:
  "exportChunk sf (stub i) =
     (case isIncludedPartialChunk sf i of
        Some k \<Rightarrow> partialsPieces sf k
      | None \<Rightarrow> if isIncompletePartialChunk sf i then Inr (replicate (NumPieces sf) []) else Inr [])"
  by (simp add: exportChunk_def stub_def split: option.splits)

lemma exportChunk_plain:
  "isIncludedPartialChunk sf (Index c) = None \<Longrightarrow> \<not> isIncompletePartialChunk sf (Index c) \<Longrightarrow>
   exportChunk sf c = Inr (exportPieces sf c)"
  by (simp add: exportChunk_def exportPieces_def)

lemma SnapshotRange_Value:
  assumes cs: "staticChunkSize sf \<noteq> 0"
    and v: "SnapshotRange sf offset len = Value snap"
  shows "length snap = numChunks sf \<and>
         (\<forall>i<numChunks sf.
            if inRange (staticChunkSize sf) offset len i
            then \<exists>c. chunkOf sf i = Inr c \<and> exportChunk sf c = Inr (snap ! i)
            else exportChunk sf (stub i) = Inr (snap ! i))"
proof -
  obtain mn mx where r: "rangeChunks (staticChunkSize sf) offset len = (mn, mx)"
    by (cases "rangeChunks (staticChunkSize sf) offset len") auto
  from v cs r obtain chunks where c: "readlockChunks sf mn mx = Inr chunks"
    and e: "readlockSnapshot sf chunks = Value snap"
    by (auto simp: SnapshotRange_def split: sum.splits)
  from readlockLoop_Inr[OF c[unfolded readlockChunks_def]]
  have ch: "chunks = map (pickChunk sf mn mx) [0..<numChunks sf]"
    and ex: "\<forall>i\<in>set [0..<numChunks sf]. \<not> (int i < mn \<or> int i > mx) \<longrightarrow> (\<exists>c. chunkOf sf i = Inr c)"
    by simp_all
  from e have "exportChunks sf chunks [] = Inr snap"
    by (simp add: readlockSnapshot_def split: sum.splits)
  from exportChunks_Inr[OF this]
  have l2: "list_all2 (\<lambda>c y. exportChunk sf c = Inr y) chunks snap" by simp
  then have len: "length snap = numChunks sf" using ch by (simp add: list_all2_lengthD[symmetric])
  have each: "if inRange (staticChunkSize sf) offset len i
            then \<exists>c. chunkOf sf i = Inr c \<and> exportChunk sf c = Inr (snap ! i)
            else exportChunk sf (stub i) = Inr (snap ! i)" if i: "i < numChunks sf" for i
  proof -
    from i ch have il: "i < length chunks" by simp
    from list_all2_nthD[OF l2 il] have x: "exportChunk sf (chunks ! i) = Inr (snap ! i)" .
    from i ch have p: "chunks ! i = pickChunk sf mn mx i" by simp
    show ?thesis
    proof (cases "inRange (staticChunkSize sf) offset len i")
      case True
      then have n: "\<not> (int i < mn \<or> int i > mx)" by (auto simp: inRange_def r)
      with ex i obtain c where c: "chunkOf sf i = Inr c" by auto
      with n p have "chunks ! i = c" by (simp add: pickChunk_def)
      with x c True show ?thesis by simp
    next
      case False
      then have "int i < mn \<or> int i > mx" by (auto simp: inRange_def r)
      with p have "chunks ! i = stub i" by (simp add: pickChunk_def)
      with x False show ?thesis by simp
    qed
  qed
  from len each show ?thesis by blast
qed

lemma SnapshotRange_total:
  assumes cs: "staticChunkSize sf \<noteq> 0"
    and rd: "\<forall>i<numChunks sf.
               if inRange (staticChunkSize sf) offset len i
               then \<exists>c y. chunkOf sf i = Inr c \<and> exportChunk sf c = Inr y
               else \<exists>y. exportChunk sf (stub i) = Inr y"
  shows "\<exists>s. SnapshotRange sf offset len = Value s"
proof -
  obtain mn mx where r: "rangeChunks (staticChunkSize sf) offset len = (mn, mx)"
    by (cases "rangeChunks (staticChunkSize sf) offset len") auto
  have inr: "inRange (staticChunkSize sf) offset len i = (\<not> (int i < mn \<or> int i > mx))" for i
    by (auto simp: inRange_def r)
  have "\<forall>i\<in>set [0..<numChunks sf]. \<not> (int i < mn \<or> int i > mx) \<longrightarrow> (\<exists>c. chunkOf sf i = Inr c)"
  proof (intro ballI impI)
    fix i assume "i \<in> set [0..<numChunks sf]" and n: "\<not> (int i < mn \<or> int i > mx)"
    then have "i < numChunks sf" by simp
    with rd[rule_format, OF this] n inr[of i] show "\<exists>c. chunkOf sf i = Inr c" by auto
  qed
  from readlockLoop_total[OF this, of "[]"] obtain chunks where
    c: "readlockChunks sf mn mx = Inr chunks"
    unfolding readlockChunks_def by blast
  from readlockLoop_Inr[OF c[unfolded readlockChunks_def]]
  have ch: "chunks = map (pickChunk sf mn mx) [0..<numChunks sf]" by simp
  have "\<forall>c\<in>set chunks. \<exists>y. exportChunk sf c = Inr y"
  proof
    fix c assume "c \<in> set chunks"
    with ch obtain i where i: "i < numChunks sf" and ci: "c = pickChunk sf mn mx i" by auto
    show "\<exists>y. exportChunk sf c = Inr y"
    proof (cases "int i < mn \<or> int i > mx")
      case True
      with ci have "c = stub i" by (simp add: pickChunk_def)
      with rd[rule_format, OF i] True inr[of i] show ?thesis by auto
    next
      case False
      with rd[rule_format, OF i] inr[of i] obtain c' y where
        "chunkOf sf i = Inr c'" "exportChunk sf c' = Inr y" by auto
      with ci False show ?thesis by (auto simp: pickChunk_def)
    qed
  qed
  from exportChunks_total[OF this, of "[]"] obtain out where
    "exportChunks sf chunks [] = Inr out" by blast
  with c cs r show ?thesis by (simp add: SnapshotRange_def readlockSnapshot_def)
qed

lemma in_range_nat:
  assumes "0 < cs"
  shows "(off div cs \<le> i \<and>
          i \<le> (if (off + len) mod cs = 0 \<and> 0 < (off + len) div cs
               then (off + len) div cs - 1 else (off + len) div cs)) =
         materialized cs off len (i::nat)"
proof (cases "len = 0")
  case True
  then show ?thesis by (auto simp: materialized_def)
next
  case False
  have lo: "(off div cs \<le> i) = (off < (i + 1) * cs)"
    using assms by (metis Suc_eq_plus1 div_less_iff_less_mult less_Suc_eq_le)
  show ?thesis
  proof (cases "(off + len) mod cs = 0")
    case True
    then obtain k where k: "off + len = k * cs"
      by (auto simp: mod_eq_0_iff_dvd dvd_def mult.commute)
    with False assms have kpos: "0 < k" by (cases k) auto
    have "(i \<le> k - 1) = (i * cs < k * cs)" using kpos assms by auto
    with True k kpos assms lo False show ?thesis by (auto simp: materialized_def)
  next
    case m: False
    have "(i \<le> (off + len) div cs) = (i * cs \<le> off + len)"
      using assms by (simp add: less_eq_div_iff_mult_less_eq)
    moreover have "i * cs \<noteq> off + len" using m by (metis mod_mult_self2_is_0)
    ultimately have "(i \<le> (off + len) div cs) = (i * cs < off + len)" by auto
    with m lo False show ?thesis by (auto simp: materialized_def)
  qed
qed

lemma sint_small:
  fixes x :: uint64
  assumes "unat x < 2 ^ 63"
  shows "sint x = int (unat x)"
proof -
  have "int (unat x) < int (2 ^ 63)" using assms by (simp only: of_nat_less_iff)
  then have "uint x < 2 ^ 63" by (simp only: uint_nat) simp
  moreover have "- (2 ^ 63) \<le> uint x" by (rule order_trans[of _ 0]) simp_all
  ultimately have "signed_take_bit 63 (uint x) = uint x"
    by (rule signed_take_bit_int_eq_self[rotated])
  moreover have "sint x = signed_take_bit 63 (uint x)" by (simp add: sint_uint)
  ultimately show ?thesis by (simp only: uint_nat)
qed


lemma rangeChunks_nat:
  assumes cs: "chunkSize \<noteq> 0" and b: "unat offset + unat len < 2 ^ 63"
  shows "rangeChunks chunkSize offset len =
           (int (unat offset div unat chunkSize),
            int (if (unat offset + unat len) mod unat chunkSize = 0 \<and>
                    0 < (unat offset + unat len) div unat chunkSize
                 then (unat offset + unat len) div unat chunkSize - 1
                 else (unat offset + unat len) div unat chunkSize))"
proof -
  have "unat offset + unat len < 2 ^ LENGTH(64)" using b by simp
  then have add: "unat (offset + len) = unat offset + unat len"
    by (simp only: unat_add_lem[THEN iffD1])
  have d1: "unat (offset div chunkSize) = unat offset div unat chunkSize" by (rule unat_div)
  have d2: "unat ((offset + len) div chunkSize) = (unat offset + unat len) div unat chunkSize"
    by (simp only: unat_div add)
  have "((offset + len) mod chunkSize = 0) = (unat ((offset + len) mod chunkSize) = 0)"
    by (simp only: unat_eq_0)
  then have m: "((offset + len) mod chunkSize = 0) = ((unat offset + unat len) mod unat chunkSize = 0)"
    by (simp only: unat_mod add)
  have l1: "unat (offset div chunkSize) < 2 ^ 63"
  proof -
    have "unat offset div unat chunkSize \<le> unat offset" by (rule div_le_dividend)
    with b d1 show ?thesis by linarith
  qed
  have l2: "unat ((offset + len) div chunkSize) < 2 ^ 63"
  proof -
    have "(unat offset + unat len) div unat chunkSize \<le> unat offset + unat len"
      by (rule div_le_dividend)
    with b d2 show ?thesis by linarith
  qed
  have g: "(int a, if int b > 0 \<and> c then int b - 1 else int b) =
           (int a, int (if c \<and> 0 < b then b - 1 else b))" for a b :: nat and c
    by (auto simp: of_nat_diff)
  show ?thesis
    unfolding rangeChunks_def Let_def sint_small[OF l1] sint_small[OF l2] d1 d2 m by (rule g)
qed


lemma inRange_materialized:
  assumes cs: "chunkSize \<noteq> 0" and b: "unat offset + unat len < 2 ^ 63"
  shows "inRange chunkSize offset len i =
           materialized (unat chunkSize) (unat offset) (unat len) i"
proof -
  let ?cs = "unat chunkSize"
  let ?hi = "if (unat offset + unat len) mod ?cs = 0 \<and> 0 < (unat offset + unat len) div ?cs
             then (unat offset + unat len) div ?cs - 1 else (unat offset + unat len) div ?cs"
  have pos: "0 < ?cs" using cs by (simp add: unat_gt_0)
  have r: "rangeChunks chunkSize offset len = (int (unat offset div ?cs), int ?hi)"
    by (rule rangeChunks_nat[OF cs b])
  have "inRange chunkSize offset len i = (unat offset div ?cs \<le> i \<and> i \<le> ?hi)"
    unfolding inRange_def r fst_conv snd_conv by (simp only: of_nat_le_iff)
  with in_range_nat[OF pos, of "unat offset" i "unat len"] show ?thesis by simp
qed

lemma upt3: "[0..<3] = [0, 1, 2]"
  by (simp add: upt_rec)

lemma example_ranges:
  "SnapshotRange exampleSiaFile 4 4 = Value [[], [[(7, [1])]], []]"
  "SnapshotRange exampleSiaFile 0 0 = Value [[[(7, [0])]], [], []]"
  "SnapshotRange exampleSiaFile 5 0 = Value [[], [[(7, [1])]], []]"
  "SnapshotRange exampleSiaFile 4 0 = Value [[], [], []]"
  "SnapshotRange examplePartialFile 0 1 = Value [[[(7, [0])]], [], [[(9, [9])]]]"
  by (simp_all add: SnapshotRange_def examplePartialFile_def exampleSiaFile_def rangeChunks_def
        readlockChunks_def upt3 readlockSnapshot_def exportChunk_def Let_def)

text \<open>
  C5 (as amended). A chunk size of zero is a division by zero. Otherwise, in a snapshot
  that \<open>SnapshotRange\<close> returns there is one entry per chunk of the file; the chunks
  whose index lies within the computed bounds are read from the file and exported, and
  every other chunk is handed on as a stub holding only its index. While
  \<open>offset + length\<close> stays below \<open>2^63\<close> (the size of a file is an \<open>int64\<close>) the chunks
  within the bounds are: for a positive
  length exactly those whose bytes meet \<open>[offset, offset + length)\<close> (so the chunk that
  starts at \<open>offset + length\<close> is left out when that is a multiple of the chunk size); for
  length zero the one chunk that holds \<open>offset\<close>, unless \<open>offset\<close> is a positive multiple
  of the chunk size, and only then none. The entry of a stub has no pieces, except where
  its index is a partial chunk: one included in the combined file gets the pieces stored
  there, and one not yet included gets \<open>NumPieces\<close> empty piece sets. A chunk that is not a
  partial chunk is exported with the pieces it has on disk. \<open>SnapshotRange\<close> returns a
  snapshot whenever the chunks within the bounds can be read and every chunk can be
  exported.
\<close>

theorem SnapshotRange_chunks:
  "(staticChunkSize sf = 0 \<longrightarrow>
      SnapshotRange sf offset len = RuntimePanic ''integer divide by zero'') \<and>
   (staticChunkSize sf \<noteq> 0 \<and> SnapshotRange sf offset len = Value snap \<longrightarrow>
      length snap = numChunks sf \<and>
      (\<forall>i<numChunks sf.
         if inRange (staticChunkSize sf) offset len i
         then \<exists>c. chunkOf sf i = Inr c \<and> exportChunk sf c = Inr (snap ! i)
         else exportChunk sf (stub i) = Inr (snap ! i))) \<and>
   (staticChunkSize sf \<noteq> 0 \<and> unat offset + unat len < 2 ^ 63 \<longrightarrow>
      inRange (staticChunkSize sf) offset len j =
        materialized (unat (staticChunkSize sf)) (unat offset) (unat len) j) \<and>
   exportChunk sf (stub j) =
     (case isIncludedPartialChunk sf j of
        Some k \<Rightarrow> partialsPieces sf k
      | None \<Rightarrow> if isIncompletePartialChunk sf j then Inr (replicate (NumPieces sf) [])
                else Inr []) \<and>
   (isIncludedPartialChunk sf (Index c) = None \<and> \<not> isIncompletePartialChunk sf (Index c) \<longrightarrow>
      exportChunk sf c = Inr (exportPieces sf c)) \<and>
   (staticChunkSize sf \<noteq> 0 \<and>
    (\<forall>i<numChunks sf.
       if inRange (staticChunkSize sf) offset len i
       then \<exists>c y. chunkOf sf i = Inr c \<and> exportChunk sf c = Inr y
       else \<exists>y. exportChunk sf (stub i) = Inr y) \<longrightarrow>
    (\<exists>s. SnapshotRange sf offset len = Value s))"
proof -
  have 1: "staticChunkSize sf = 0 \<longrightarrow>
      SnapshotRange sf offset len = RuntimePanic ''integer divide by zero''"
    by (simp add: SnapshotRange_def)
  have 2: "staticChunkSize sf \<noteq> 0 \<and> SnapshotRange sf offset len = Value snap \<longrightarrow>
      length snap = numChunks sf \<and>
      (\<forall>i<numChunks sf.
         if inRange (staticChunkSize sf) offset len i
         then \<exists>c. chunkOf sf i = Inr c \<and> exportChunk sf c = Inr (snap ! i)
         else exportChunk sf (stub i) = Inr (snap ! i))"
    using SnapshotRange_Value[of sf offset len snap] by blast
  have 3: "staticChunkSize sf \<noteq> 0 \<and> unat offset + unat len < 2 ^ 63 \<longrightarrow>
      inRange (staticChunkSize sf) offset len j =
        materialized (unat (staticChunkSize sf)) (unat offset) (unat len) j"
    using inRange_materialized[of "staticChunkSize sf" offset len j] by blast
  have 4: "exportChunk sf (stub j) =
     (case isIncludedPartialChunk sf j of
        Some k \<Rightarrow> partialsPieces sf k
      | None \<Rightarrow> if isIncompletePartialChunk sf j then Inr (replicate (NumPieces sf) [])
                else Inr [])"
    by (rule exportChunk_stub)
  have 5: "isIncludedPartialChunk sf (Index c) = None \<and> \<not> isIncompletePartialChunk sf (Index c) \<longrightarrow>
      exportChunk sf c = Inr (exportPieces sf c)"
    using exportChunk_plain[of sf c] by blast
  have 6: "staticChunkSize sf \<noteq> 0 \<and>
    (\<forall>i<numChunks sf.
       if inRange (staticChunkSize sf) offset len i
       then \<exists>c y. chunkOf sf i = Inr c \<and> exportChunk sf c = Inr y
       else \<exists>y. exportChunk sf (stub i) = Inr y) \<longrightarrow>
    (\<exists>s. SnapshotRange sf offset len = Value s)"
    using SnapshotRange_total[of sf offset len] by blast
  from 1 2 3 4 5 6 show ?thesis by (intro conjI)
qed

text \<open>The theorem on the second chunk of the example file.\<close>

theorem SnapshotRange_chunks_witness:
  "staticChunkSize exampleSiaFile \<noteq> 0 \<and> unat (4 :: uint64) + unat (4 :: uint64) < 2 ^ 63 \<and>
   SnapshotRange exampleSiaFile 4 4 = Value [[], [[(7, [1])]], []] \<and>
   inRange (staticChunkSize exampleSiaFile) 4 4 0 = False \<and>
   inRange (staticChunkSize exampleSiaFile) 4 4 1 = True \<and>
   inRange (staticChunkSize exampleSiaFile) 4 4 2 = False \<and>
   exportChunk exampleSiaFile (stub 0) = Inr ([[], [[(7, [1])]], [] :: nat Chunk] ! 0) \<and>
   exportChunk exampleSiaFile (stub 2) = Inr ([[], [[(7, [1])]], [] :: nat Chunk] ! 2)"
proof -
  let ?snap = "[[], [[(7, [1])]], [] :: nat Chunk]"
  have h1: "staticChunkSize exampleSiaFile \<noteq> 0" by (simp add: exampleSiaFile_def)
  have h2: "unat (4 :: uint64) + unat (4 :: uint64) < 2 ^ 63" by simp
  have h4: "SnapshotRange exampleSiaFile 4 4 = Value ?snap" by (rule example_ranges(1))
  have n: "numChunks exampleSiaFile = 3" "unat (staticChunkSize exampleSiaFile) = 4"
    by (simp_all add: exampleSiaFile_def)
  have m: "\<not> materialized 4 4 4 0" "materialized 4 4 4 1" "\<not> materialized 4 4 4 2"
    by (simp_all add: materialized_def)
  have r0: "inRange (staticChunkSize exampleSiaFile) 4 4 0 = False"
    using SnapshotRange_chunks[of exampleSiaFile 4 4 ?snap 0] h1 h2 n m by simp
  have r1: "inRange (staticChunkSize exampleSiaFile) 4 4 1 = True"
    using SnapshotRange_chunks[of exampleSiaFile 4 4 ?snap 1] h1 h2 n m by simp
  have r2: "inRange (staticChunkSize exampleSiaFile) 4 4 2 = False"
    using SnapshotRange_chunks[of exampleSiaFile 4 4 ?snap 2] h1 h2 n m by simp
  from SnapshotRange_chunks[of exampleSiaFile 4 4 ?snap 0] h1 h4
  have all: "\<forall>i<numChunks exampleSiaFile.
         if inRange (staticChunkSize exampleSiaFile) 4 4 i
         then \<exists>c. chunkOf exampleSiaFile i = Inr c \<and> exportChunk exampleSiaFile c = Inr (?snap ! i)
         else exportChunk exampleSiaFile (stub i) = Inr (?snap ! i)" by blast
  from all[rule_format, of 0] r0 n
  have c0: "exportChunk exampleSiaFile (stub 0) = Inr (?snap ! 0)" by simp
  from all[rule_format, of 2] r2 n
  have c2: "exportChunk exampleSiaFile (stub 2) = Inr (?snap ! 2)" by simp
  from h1 h2 h4 r0 r1 r2 c0 c2 show ?thesis by blast
qed

text \<open>
  With length zero at offset 0 the first chunk is read and exported with its piece, and at
  offset 5 the second chunk is: the snapshot is not made of stubs only. And in the file
  whose last chunk is an included partial chunk, a range that covers only the first chunk
  still gives the last entry the pieces of the combined file.
\<close>

theorem SnapshotRange_chunks_counterexample:
  "SnapshotRange exampleSiaFile 0 0 = Value [[[(7, [0])]], [], []] \<and>
   SnapshotRange exampleSiaFile 5 0 = Value [[], [[(7, [1])]], []] \<and>
   SnapshotRange examplePartialFile 0 1 = Value [[[(7, [0])]], [], [[(9, [9])]]]"
  using example_ranges(2,3,5) by simp

section \<open>Properties of the bubble walks\<close>

lemma rootSignals_updates [simp]:
  "bubbleUpdates (fst (rootSignals env md st)) = bubbleUpdates st"
  by (simp add: rootSignals_def Let_def)

lemma rootSignals_updatesD:
  "rootSignals env md st = (st', sigs) \<Longrightarrow> bubbleUpdates st' = bubbleUpdates st"
  using rootSignals_updates[of env md st] by simp

lemma writeMetadata_updates:
  "bubbleUpdates (fst (writeMetadata env siaPath md st)) = bubbleUpdates st"
proof (cases "openSiaDir env")
  case (Some e)
  then show ?thesis by (simp add: writeMetadata_def)
next
  case None
  obtain sd d out where u:
    "UpdateBubbledMetadata (envDeps env) (envBuild env) (siaDir st) md (disk st) = (sd, d, out)"
    by (metis prod.exhaust)
  with None show ?thesis by (cases out) (simp_all add: writeMetadata_def)
qed

lemma performBody_updates:
  "bubbleUpdates (fst (performBody env siaPath st)) = bubbleUpdates st"
proof -
  obtain md err effs n where c:
    "managedCalculateDirectoryMetadata (AlertSiafileLowRedundancyThreshold env)
       (envClock env) (readChildren env) = (md, err, effs, n)"
    by (metis prod.exhaust)
  obtain st1 out where w: "writeMetadata env siaPath md st = (st1, out)" by (metis prod.exhaust)
  from writeMetadata_updates[of env siaPath md st] w
  have u: "bubbleUpdates st1 = bubbleUpdates st" by simp
  obtain st2 sigs where r: "rootSignals env md st1 = (st2, sigs)" by (metis prod.exhaust)
  from rootSignals_updatesD[OF r] u have u2: "bubbleUpdates st2 = bubbleUpdates st" by simp
  from c w r u u2 show ?thesis
    by (cases err; cases out; cases "IsRoot env siaPath") (simp_all add: performBody_def)
qed

lemma fileBranch_effects:
  "fileBranch thr clk f (md, n, effs) = ((md', ag), n', effs') \<Longrightarrow>
   \<forall>e\<in>set effs. \<not> fromCompletion e \<Longrightarrow> \<forall>e\<in>set effs'. \<not> fromCompletion e"
  by (auto simp: fileBranch_def Let_def fileAlert_def split: if_splits)

lemma dirBranch_effects:
  "dirBranch clk dm (md, n, effs) = ((md', ag), n', effs') \<Longrightarrow>
   \<forall>e\<in>set effs. \<not> fromCompletion e \<Longrightarrow> \<forall>e\<in>set effs'. \<not> fromCompletion e"
  by (auto simp: dirBranch_def Let_def split: if_splits)

lemma aggregate_effects:
  "\<forall>e\<in>set (snd (snd st)). \<not> fromCompletion e \<Longrightarrow>
   \<forall>e\<in>set (snd (snd (aggregate thr clk fs ds st))). \<not> fromCompletion e"
proof (induction thr clk fs ds st rule: aggregate.induct)
  case (1 thr clk f fs ds st)
  obtain md n effs where st: "st = (md, n, effs)" by (cases st) auto
  obtain md' ag n' effs' where fb: "fileBranch thr clk f st = ((md', ag), n', effs')"
    by (metis prod.exhaust)
  from fileBranch_effects[OF fb[unfolded st]] "1.prems" st
  have "\<forall>e\<in>set effs'. \<not> fromCompletion e" by simp
  with 1(1)[OF fb[symmetric] refl refl] fb show ?case by simp
next
  case (2 thr clk dm ds st)
  obtain md n effs where st: "st = (md, n, effs)" by (cases st) auto
  obtain md' ag n' effs' where db: "dirBranch clk dm st = ((md', ag), n', effs')"
    by (metis prod.exhaust)
  from dirBranch_effects[OF db[unfolded st]] "2.prems" st
  have "\<forall>e\<in>set effs'. \<not> fromCompletion e" by simp
  with 2(1)[OF db[symmetric] refl refl] db show ?case by simp
next
  case (3 thr clk st)
  then show ?case by simp
qed

lemma calc_effects:
  "\<forall>e\<in>set (fst (snd (snd (managedCalculateDirectoryMetadata thr clk ch)))). \<not> fromCompletion e"
proof (cases ch)
  case (Listing fs ds)
  from aggregate_effects[of "(startMetadata (clk 0), 1, [])" thr clk fs ds]
  have "\<forall>e\<in>set (snd (snd (aggregate thr clk fs ds (startMetadata (clk 0), 1, [])))). \<not> fromCompletion e"
    by simp
  with Listing show ?thesis
    by (simp add: managedCalculateDirectoryMetadata_def Let_def split: prod.splits)
qed (simp_all add: managedCalculateDirectoryMetadata_def)

lemma rootSignals_effects:
  "\<forall>e\<in>set (snd (rootSignals env md st)). \<not> fromCompletion e"
  by (auto simp: rootSignals_def Let_def)

lemma performBody_effects:
  "\<forall>e\<in>set (fst (snd (performBody env siaPath st))). \<not> fromCompletion e"
proof -
  obtain md err effs n where c:
    "managedCalculateDirectoryMetadata (AlertSiafileLowRedundancyThreshold env)
       (envClock env) (readChildren env) = (md, err, effs, n)"
    by (metis prod.exhaust)
  from calc_effects[of "AlertSiafileLowRedundancyThreshold env" "envClock env" "readChildren env"] c
  have e: "\<forall>e\<in>set effs. \<not> fromCompletion e" by simp
  obtain st1 out where w: "writeMetadata env siaPath md st = (st1, out)" by (metis prod.exhaust)
  obtain st2 sigs where r: "rootSignals env md st1 = (st2, sigs)" by (metis prod.exhaust)
  from rootSignals_effects[of env md st1] r have s: "\<forall>e\<in>set sigs. \<not> fromCompletion e" by simp
  from c w r e s show ?thesis
    by (cases err; cases out; cases "IsRoot env siaPath") (auto simp: performBody_def)
qed

lemma performBody_no_followup:
  "FollowUpWalk p \<notin> set (fst (snd (performBody env siaPath st)))"
  using performBody_effects[of env siaPath st] by force

lemma deferredComplete_valid:
  assumes "bubbleUpdates st siaPath = Some bubbleActive \<or>
           bubbleUpdates st siaPath = Some bubblePending \<or> \<not> DEBUG (envBuild env)"
  shows "deferredComplete env siaPath st =
           (st\<lparr>bubbleUpdates := fst (managedCompleteBubbleUpdate (bubbleUpdates st) siaPath (tgAdd env))\<rparr>,
            (if fst (snd (managedCompleteBubbleUpdate (bubbleUpdates st) siaPath (tgAdd env)))
             then [FollowUpWalk siaPath] else []) @
            (if IsRoot env siaPath then []
             else case Dir env siaPath of Inl err \<Rightarrow> [] | Inr parentDir \<Rightarrow> [ParentBubble parentDir]),
            None)"
proof -
  obtain m launched crit where c:
    "managedCompleteBubbleUpdate (bubbleUpdates st) siaPath (tgAdd env) = (m, launched, crit)"
    by (metis prod.exhaust)
  from assms c have "\<not> (crit \<and> DEBUG (envBuild env))"
    by (auto simp: managedCompleteBubbleUpdate_def)
  with c show ?thesis by (simp add: deferredComplete_def)
qed

lemma deferredComplete_invalid:
  assumes "bubbleUpdates st siaPath \<noteq> Some bubbleActive"
    and "bubbleUpdates st siaPath \<noteq> Some bubblePending" and "DEBUG (envBuild env)"
  shows "deferredComplete env siaPath st = (st, [], Some (OsError ''invalid bubble status''))"
proof -
  obtain m launched crit where c:
    "managedCompleteBubbleUpdate (bubbleUpdates st) siaPath (tgAdd env) = (m, launched, crit)"
    by (metis prod.exhaust)
  from assms(1,2) c have crit
    by (cases "bubbleUpdates st siaPath")
       (auto simp: managedCompleteBubbleUpdate_def split: if_splits)
  with c assms(3) show ?thesis by (simp add: deferredComplete_def)
qed

text \<open>
  C10 (as amended). Whatever the calculation and the write do (return an error, succeed or
  panic), a walk of a path that has an active or pending entry, or any walk in a release
  build, ends with \<open>managedCompleteBubbleUpdate\<close> on the coordinator's map and then, when
  the path is not the root and has a parent, with the launch of the parent's bubble as its
  last effect; the state, the effects and the outcome of the body are kept. An active
  entry is removed. A pending entry is set back to active, and a follow-up walk is
  launched exactly when the thread group accepts it: when it does not, the active entry
  stays without a walk. A walk of a path without a valid entry, which the coordinator
  never starts, panics in a debug build before the map is changed or the parent is
  bubbled.
\<close>

theorem walk_always_completes:
  "(bubbleUpdates st siaPath = Some bubbleActive \<or>
    bubbleUpdates st siaPath = Some bubblePending \<or> \<not> DEBUG (envBuild env) \<longrightarrow>
      managedPerformBubbleMetadata env siaPath st =
        ((fst (performBody env siaPath st))
           \<lparr>bubbleUpdates :=
              fst (managedCompleteBubbleUpdate (bubbleUpdates st) siaPath (tgAdd env))\<rparr>,
         fst (snd (performBody env siaPath st)) @
         (if fst (snd (managedCompleteBubbleUpdate (bubbleUpdates st) siaPath (tgAdd env)))
          then [FollowUpWalk siaPath] else []) @
         (if IsRoot env siaPath then []
          else case Dir env siaPath of Inl err \<Rightarrow> [] | Inr parentDir \<Rightarrow> [ParentBubble parentDir]),
         snd (snd (performBody env siaPath st))) \<and>
      (\<not> IsRoot env siaPath \<and> Dir env siaPath = Inr parentDir \<longrightarrow>
         fst (snd (managedPerformBubbleMetadata env siaPath st)) \<noteq> [] \<and>
         last (fst (snd (managedPerformBubbleMetadata env siaPath st))) = ParentBubble parentDir)) \<and>
   (bubbleUpdates st siaPath = Some bubbleActive \<longrightarrow>
      bubbleUpdates (fst (managedPerformBubbleMetadata env siaPath st)) siaPath = None) \<and>
   (bubbleUpdates st siaPath = Some bubblePending \<longrightarrow>
      bubbleUpdates (fst (managedPerformBubbleMetadata env siaPath st)) siaPath =
        Some bubbleActive \<and>
      (FollowUpWalk siaPath \<in> set (fst (snd (managedPerformBubbleMetadata env siaPath st))) =
         tgAdd env)) \<and>
   (bubbleUpdates st siaPath \<noteq> Some bubbleActive \<and>
    bubbleUpdates st siaPath \<noteq> Some bubblePending \<and> DEBUG (envBuild env) \<longrightarrow>
      managedPerformBubbleMetadata env siaPath st =
        (fst (performBody env siaPath st), fst (snd (performBody env siaPath st)),
         Panic (OsError ''invalid bubble status'')))"
proof -
  obtain st1 effs out where b: "performBody env siaPath st = (st1, effs, out)"
    by (metis prod.exhaust)
  from performBody_updates[of env siaPath st] b have u: "bubbleUpdates st1 = bubbleUpdates st"
    by simp
  let ?c = "managedCompleteBubbleUpdate (bubbleUpdates st) siaPath (tgAdd env)"
  let ?tail = "(if fst (snd ?c) then [FollowUpWalk siaPath] else []) @
            (if IsRoot env siaPath then []
             else case Dir env siaPath of Inl err \<Rightarrow> [] | Inr parentDir \<Rightarrow> [ParentBubble parentDir])"
  have m: "managedPerformBubbleMetadata env siaPath st =
             (st1\<lparr>bubbleUpdates := fst ?c\<rparr>, effs @ ?tail, out)"
    if v: "bubbleUpdates st siaPath = Some bubbleActive \<or>
           bubbleUpdates st siaPath = Some bubblePending \<or> \<not> DEBUG (envBuild env)"
  proof -
    from v u have v': "bubbleUpdates st1 siaPath = Some bubbleActive \<or>
           bubbleUpdates st1 siaPath = Some bubblePending \<or> \<not> DEBUG (envBuild env)" by simp
    have d: "deferredComplete env siaPath st1 = (st1\<lparr>bubbleUpdates := fst ?c\<rparr>, ?tail, None)"
      using deferredComplete_valid[OF v'] unfolding u .
    show ?thesis by (simp only: managedPerformBubbleMetadata_def b d prod.case option.case)
  qed
  have 1: "bubbleUpdates st siaPath = Some bubbleActive \<or>
    bubbleUpdates st siaPath = Some bubblePending \<or> \<not> DEBUG (envBuild env) \<longrightarrow>
      managedPerformBubbleMetadata env siaPath st =
        ((fst (performBody env siaPath st))\<lparr>bubbleUpdates := fst ?c\<rparr>,
         fst (snd (performBody env siaPath st)) @ ?tail,
         snd (snd (performBody env siaPath st))) \<and>
      (\<not> IsRoot env siaPath \<and> Dir env siaPath = Inr parentDir \<longrightarrow>
         fst (snd (managedPerformBubbleMetadata env siaPath st)) \<noteq> [] \<and>
         last (fst (snd (managedPerformBubbleMetadata env siaPath st))) = ParentBubble parentDir)"
  proof
    assume v: "bubbleUpdates st siaPath = Some bubbleActive \<or>
           bubbleUpdates st siaPath = Some bubblePending \<or> \<not> DEBUG (envBuild env)"
    show "managedPerformBubbleMetadata env siaPath st =
        ((fst (performBody env siaPath st))\<lparr>bubbleUpdates := fst ?c\<rparr>,
         fst (snd (performBody env siaPath st)) @ ?tail,
         snd (snd (performBody env siaPath st))) \<and>
      (\<not> IsRoot env siaPath \<and> Dir env siaPath = Inr parentDir \<longrightarrow>
         fst (snd (managedPerformBubbleMetadata env siaPath st)) \<noteq> [] \<and>
         last (fst (snd (managedPerformBubbleMetadata env siaPath st))) = ParentBubble parentDir)"
      unfolding m[OF v] b by simp
  qed
  have 2: "bubbleUpdates st siaPath = Some bubbleActive \<longrightarrow>
            bubbleUpdates (fst (managedPerformBubbleMetadata env siaPath st)) siaPath = None"
  proof
    assume a: "bubbleUpdates st siaPath = Some bubbleActive"
    then have v: "bubbleUpdates st siaPath = Some bubbleActive \<or>
           bubbleUpdates st siaPath = Some bubblePending \<or> \<not> DEBUG (envBuild env)" by blast
    show "bubbleUpdates (fst (managedPerformBubbleMetadata env siaPath st)) siaPath = None"
      unfolding m[OF v] using a by (simp add: managedCompleteBubbleUpdate_def)
  qed
  have 3: "bubbleUpdates st siaPath = Some bubblePending \<longrightarrow>
      bubbleUpdates (fst (managedPerformBubbleMetadata env siaPath st)) siaPath =
        Some bubbleActive \<and>
      (FollowUpWalk siaPath \<in> set (fst (snd (managedPerformBubbleMetadata env siaPath st))) =
         tgAdd env)"
  proof
    assume a: "bubbleUpdates st siaPath = Some bubblePending"
    then have v: "bubbleUpdates st siaPath = Some bubbleActive \<or>
           bubbleUpdates st siaPath = Some bubblePending \<or> \<not> DEBUG (envBuild env)" by blast
    show "bubbleUpdates (fst (managedPerformBubbleMetadata env siaPath st)) siaPath =
        Some bubbleActive \<and>
      (FollowUpWalk siaPath \<in> set (fst (snd (managedPerformBubbleMetadata env siaPath st))) =
         tgAdd env)"
      unfolding m[OF v] using a performBody_no_followup[of siaPath env siaPath st] b
      by (auto simp: managedCompleteBubbleUpdate_def split: sum.splits)
  qed
  have 4: "bubbleUpdates st siaPath \<noteq> Some bubbleActive \<and>
    bubbleUpdates st siaPath \<noteq> Some bubblePending \<and> DEBUG (envBuild env) \<longrightarrow>
      managedPerformBubbleMetadata env siaPath st =
        (fst (performBody env siaPath st), fst (snd (performBody env siaPath st)),
         Panic (OsError ''invalid bubble status''))"
  proof
    assume a: "bubbleUpdates st siaPath \<noteq> Some bubbleActive \<and>
       bubbleUpdates st siaPath \<noteq> Some bubblePending \<and> DEBUG (envBuild env)"
    with u have "deferredComplete env siaPath st1 = (st1, [], Some (OsError ''invalid bubble status''))"
      by (intro deferredComplete_invalid) simp_all
    then show "managedPerformBubbleMetadata env siaPath st =
        (fst (performBody env siaPath st), fst (snd (performBody env siaPath st)),
         Panic (OsError ''invalid bubble status''))"
      by (simp add: managedPerformBubbleMetadata_def b)
  qed
  from 1 2 3 4 show ?thesis by (intro conjI)
qed



text \<open>
  The theorem on a walk of \<open>home/a\<close> whose directory cannot be listed: the error is
  returned, the active entry is removed and the parent \<open>home\<close> is bubbled.
\<close>

theorem walk_always_completes_witness:
  "bubbleUpdates exampleRenter ''home/a'' = Some bubbleActive \<and>
   \<not> IsRoot exampleEnv ''home/a'' \<and> Dir exampleEnv ''home/a'' = Inr ''home'' \<and>
   performBody exampleEnv ''home/a'' exampleRenter =
     (exampleRenter, [],
      Return (Some (AddContext (OsError ''readdir'')
                      ''could not calculate the metadata of directory home/a''))) \<and>
   bubbleUpdates (fst (managedPerformBubbleMetadata exampleEnv ''home/a'' exampleRenter)) ''home/a'' =
     None \<and>
   last (fst (snd (managedPerformBubbleMetadata exampleEnv ''home/a'' exampleRenter))) =
     ParentBubble ''home''"
proof -
  have h1: "bubbleUpdates exampleRenter ''home/a'' = Some bubbleActive"
    by (simp add: exampleRenter_def)
  have h2: "\<not> IsRoot exampleEnv ''home/a'' \<and> Dir exampleEnv ''home/a'' = Inr ''home''"
    by (simp add: exampleEnv_def)
  have b: "performBody exampleEnv ''home/a'' exampleRenter =
             (exampleRenter, [],
              Return (Some (AddContext (OsError ''readdir'')
                     ''could not calculate the metadata of directory home/a'')))"
    by (simp add: performBody_def exampleEnv_def managedCalculateDirectoryMetadata_def)
  from walk_always_completes[of exampleRenter "''home/a''" exampleEnv "''home''"] h1 h2
  have "bubbleUpdates (fst (managedPerformBubbleMetadata exampleEnv ''home/a'' exampleRenter))
          ''home/a'' = None \<and>
        last (fst (snd (managedPerformBubbleMetadata exampleEnv ''home/a'' exampleRenter))) =
          ParentBubble ''home''" by blast
  with h1 h2 b show ?thesis by blast
qed

text \<open>
  The same walk with a request deferred on it and the renter stopping: the calculation
  fails, the entry is set to active, no follow-up walk is launched and only the parent is
  bubbled. The active entry is left behind.
\<close>

theorem walk_always_completes_counterexample:
  "managedPerformBubbleMetadata (exampleEnv\<lparr>tgAdd := False\<rparr>) ''home/a''
     (exampleRenter\<lparr>bubbleUpdates := [''home/a'' \<mapsto> bubblePending]\<rparr>) =
   (exampleRenter\<lparr>bubbleUpdates := [''home/a'' \<mapsto> bubbleActive]\<rparr>,
    [ParentBubble ''home''],
    Return (Some (AddContext (OsError ''readdir'')
                    ''could not calculate the metadata of directory home/a'')))"
  by (simp add: managedPerformBubbleMetadata_def performBody_def exampleEnv_def
        managedCalculateDirectoryMetadata_def deferredComplete_def
        managedCompleteBubbleUpdate_def exampleRenter_def exampleBuild_def)










end
